theory Spec2Isabelle
  imports Main
begin

section \<open>Python strings\<close>

text \<open>
  A Python \<open>str\<close> is modelled as a \<open>string\<close> whose characters are the code points
  0..255 (Latin-1): this covers every character of the program's own tables
  (the accented vowels and the n with tilde of the Spanish keywords). The
  character classes below are Python's \<open>str.isspace\<close>, the regular-expression
  classes \<open>\\s\<close>, \<open>\\d\<close>, \<open>\\w\<close> and \<open>str.lower\<close>, restricted to these code points.
\<close>

definition is_space :: "char \<Rightarrow> bool" where
  "is_space c = (let n = (of_char c :: nat) in
     (9 \<le> n \<and> n \<le> 13) \<or> (28 \<le> n \<and> n \<le> 32) \<or> n = 133 \<or> n = 160)"

definition is_digit :: "char \<Rightarrow> bool" where
  "is_digit c = (let n = (of_char c :: nat) in 48 \<le> n \<and> n \<le> 57)"

definition is_word :: "char \<Rightarrow> bool" where
  "is_word c = (let n = (of_char c :: nat) in
     (48 \<le> n \<and> n \<le> 57) \<or> (65 \<le> n \<and> n \<le> 90) \<or> n = 95 \<or> (97 \<le> n \<and> n \<le> 122)
     \<or> n = 170 \<or> n = 178 \<or> n = 179 \<or> n = 181 \<or> n = 185 \<or> n = 186
     \<or> (188 \<le> n \<and> n \<le> 190) \<or> (192 \<le> n \<and> n \<le> 214)
     \<or> (216 \<le> n \<and> n \<le> 246) \<or> (248 \<le> n \<and> n \<le> 255))"

definition py_lower_char :: "char \<Rightarrow> char" where
  "py_lower_char c = (let n = (of_char c :: nat) in
     if (65 \<le> n \<and> n \<le> 90) \<or> (192 \<le> n \<and> n \<le> 222 \<and> n \<noteq> 215)
     then char_of (n + 32) else c)"

definition py_lower :: "string \<Rightarrow> string" where
  "py_lower s = map py_lower_char s"

text \<open>\<open>s.startswith(p)\<close>, \<open>s.endswith(p)\<close> and the substring test \<open>p in s\<close>.\<close>

fun startswith :: "string \<Rightarrow> string \<Rightarrow> bool" where
  "startswith s [] = True"
| "startswith [] (p # ps) = False"
| "startswith (c # cs) (p # ps) = (c = p \<and> startswith cs ps)"

definition endswith :: "string \<Rightarrow> string \<Rightarrow> bool" where
  "endswith s p = startswith (rev s) (rev p)"

fun py_in :: "string \<Rightarrow> string \<Rightarrow> bool" where
  "py_in p [] = (p = [])"
| "py_in p (c # cs) = (startswith (c # cs) p \<or> py_in p cs)"

text \<open>\<open>s.strip()\<close>, \<open>s.rstrip()\<close>, \<open>s.split()\<close> and \<open>sep.join(xs)\<close>.\<close>

definition py_lstrip :: "string \<Rightarrow> string" where
  "py_lstrip s = dropWhile is_space s"

definition py_rstrip :: "string \<Rightarrow> string" where
  "py_rstrip s = rev (dropWhile is_space (rev s))"

definition py_strip :: "string \<Rightarrow> string" where
  "py_strip s = py_rstrip (py_lstrip s)"

fun split_acc :: "string \<Rightarrow> string \<Rightarrow> string list" where
  "split_acc w [] = (if w = [] then [] else [rev w])"
| "split_acc w (c # cs) =
     (if is_space c then (if w = [] then split_acc [] cs else rev w # split_acc [] cs)
      else split_acc (c # w) cs)"

definition py_split :: "string \<Rightarrow> string list" where
  "py_split s = split_acc [] s"

fun py_join :: "string \<Rightarrow> string list \<Rightarrow> string" where
  "py_join sep [] = []"
| "py_join sep [x] = x"
| "py_join sep (x # y # ys) = x @ sep @ py_join sep (y # ys)"

text \<open>
  Indices are Python integers. \<open>s[a:b]\<close> and the bounds of \<open>s.rfind(p, a, b)\<close> count a
  negative index from the end and clip to the string; \<open>rfind\<close> returns -1 when there
  is no occurrence.
\<close>

definition clip_index :: "nat \<Rightarrow> int \<Rightarrow> nat" where
  "clip_index n i = (if i < 0 then nat (int n + i) else min (nat i) n)"

definition py_slice :: "string \<Rightarrow> int \<Rightarrow> int \<Rightarrow> string" where
  "py_slice s a b = (let lo = clip_index (length s) a; hi = clip_index (length s) b
                     in take (hi - lo) (drop lo s))"

fun find_last :: "string \<Rightarrow> string \<Rightarrow> nat \<Rightarrow> int \<Rightarrow> int" where
  "find_last p [] i best = (if p = [] then int i else best)"
| "find_last p (c # cs) i best =
     find_last p cs (Suc i) (if startswith (c # cs) p then int i else best)"

definition py_rfind :: "string \<Rightarrow> string \<Rightarrow> int" where
  "py_rfind s p = find_last p s 0 (- 1)"

definition py_rfind_in :: "string \<Rightarrow> string \<Rightarrow> int \<Rightarrow> int \<Rightarrow> int" where
  "py_rfind_in s p a b =
     (let lo = clip_index (length s) a; hi = clip_index (length s) b
      in if hi < lo then - 1
         else (let r = py_rfind (take (hi - lo) (drop lo s)) p
               in if r < 0 then - 1 else int lo + r))"

section \<open>Regular expressions\<close>

text \<open>
  The patterns of the program are written in the syntax tree below and run by a
  backtracking matcher in the manner of Python's \<open>re\<close> module: alternatives are tried
  left to right and repetitions are greedy. \<open>Sym P\<close> is one character of a class,
  \<open>Many P\<close> a greedy run of such characters (\<^verbatim>\<open>[..]*\<close>), \<open>Star\<close> the greedy repetition of
  any pattern, \<open>Bnd\<close> is \<^verbatim>\<open>\b\<close>, \<open>Eos\<close> is \<^verbatim>\<open>$\<close> (the end of the text, or just before a
  final newline) and \<open>Look\<close> is a lookahead \<^verbatim>\<open>(?=..)\<close>.
\<close>

datatype regex =
    Eps
  | Sym "char \<Rightarrow> bool"
  | Many "char \<Rightarrow> bool"
  | Seq regex regex
  | Alt regex regex
  | Star regex
  | Group nat regex
  | Bnd
  | Eos
  | Look regex

text \<open>
  The matcher works on a stack of what is still to be matched: a pattern, the check
  that a repetition has consumed something (the text left must be shorter than
  \<open>n\<close>) before it goes round again, or the end of group \<open>n\<close> that began at \<open>b\<close>.
  A matcher state is the position in the text, the character before it (for \<^verbatim>\<open>\b\<close>),
  the text from it on, and the groups captured so far (number, start, end).
\<close>

datatype frame = Run regex | Progress nat regex | Close nat nat

type_synonym mstate = "nat \<times> char option \<times> string \<times> (nat \<times> nat \<times> nat) list"

fun st_pos :: "mstate \<Rightarrow> nat" where
  "st_pos (i, p, r, g) = i"

fun st_rest :: "mstate \<Rightarrow> string" where
  "st_rest (i, p, r, g) = r"

fun st_groups :: "mstate \<Rightarrow> (nat \<times> nat \<times> nat) list" where
  "st_groups (i, p, r, g) = g"

fun at_boundary :: "char option \<Rightarrow> string \<Rightarrow> bool" where
  "at_boundary None [] = False"
| "at_boundary None (c # cs) = is_word c"
| "at_boundary (Some p) [] = is_word p"
| "at_boundary (Some p) (c # cs) = (is_word p \<noteq> is_word c)"

fun frame_weight :: "nat \<Rightarrow> frame \<Rightarrow> nat" where
  "frame_weight l (Run a) = 2 * size a + 1"
| "frame_weight l (Progress n a) = (if l < n then 2 * size a + 3 else 0)"
| "frame_weight l (Close n b) = 1"

function (sequential) rx_run :: "frame list \<Rightarrow> mstate \<Rightarrow> mstate option" where
  "rx_run [] s = Some s"
| "rx_run (Run Eps # k) s = rx_run k s"
| "rx_run (Run (Sym P) # k) (i, p, [], g) = None"
| "rx_run (Run (Sym P) # k) (i, p, c # cs, g) =
     (if P c then rx_run k (Suc i, Some c, cs, g) else None)"
| "rx_run (Run (Many P) # k) (i, p, [], g) = rx_run k (i, p, [], g)"
| "rx_run (Run (Many P) # k) (i, p, c # cs, g) =
     (if P c
      then (case rx_run (Run (Many P) # k) (Suc i, Some c, cs, g) of
              Some e \<Rightarrow> Some e
            | None \<Rightarrow> rx_run k (i, p, c # cs, g))
      else rx_run k (i, p, c # cs, g))"
| "rx_run (Run (Seq a b) # k) s = rx_run (Run a # Run b # k) s"
| "rx_run (Run (Alt a b) # k) s =
     (case rx_run (Run a # k) s of Some e \<Rightarrow> Some e | None \<Rightarrow> rx_run (Run b # k) s)"
| "rx_run (Run (Star a) # k) (i, p, r, g) =
     (case rx_run (Run a # Progress (length r) (Star a) # k) (i, p, r, g) of
        Some e \<Rightarrow> Some e
      | None \<Rightarrow> rx_run k (i, p, r, g))"
| "rx_run (Progress n a # k) (i, p, r, g) =
     (if length r < n then rx_run (Run a # k) (i, p, r, g) else None)"
| "rx_run (Run (Group n a) # k) (i, p, r, g) = rx_run (Run a # Close n i # k) (i, p, r, g)"
| "rx_run (Close n b # k) (i, p, r, g) = rx_run k (i, p, r, (n, b, i) # g)"
| "rx_run (Run Bnd # k) (i, p, r, g) = (if at_boundary p r then rx_run k (i, p, r, g) else None)"
| "rx_run (Run Eos # k) (i, p, r, g) =
     (if r = [] \<or> r = [CHR 0x0A] then rx_run k (i, p, r, g) else None)"
| "rx_run (Run (Look a) # k) s =
     (case rx_run [Run a] s of Some e \<Rightarrow> rx_run k s | None \<Rightarrow> None)"
  by pat_completeness auto
termination
  by (relation "measures [\<lambda>(k, s). length (st_rest s),
                          \<lambda>(k, s). sum_list (map (frame_weight (length (st_rest s))) k)]") auto

text \<open>Pattern syntax built from the constructors: a literal, a literal under
  \<open>re.IGNORECASE\<close>, \<^verbatim>\<open>[..]+\<close>, \<^verbatim>\<open>x?\<close>, \<^verbatim>\<open>x+\<close>, \<^verbatim>\<open>x{3,}\<close> and \<^verbatim>\<open>x{5,}\<close>.\<close>

fun lit :: "string \<Rightarrow> regex" where
  "lit [] = Eps"
| "lit (c # cs) = Seq (Sym (\<lambda>x. x = c)) (lit cs)"

fun lit_ci :: "string \<Rightarrow> regex" where
  "lit_ci [] = Eps"
| "lit_ci (c # cs) = Seq (Sym (\<lambda>x. py_lower_char x = py_lower_char c)) (lit_ci cs)"

definition plus :: "(char \<Rightarrow> bool) \<Rightarrow> regex" where
  "plus P = Seq (Sym P) (Many P)"

definition opt :: "regex \<Rightarrow> regex" where
  "opt a = Alt a Eps"

definition three_or_more :: "regex \<Rightarrow> regex" where
  "three_or_more a = Seq a (Seq a (Seq a (Star a)))"

definition five_or_more :: "regex \<Rightarrow> regex" where
  "five_or_more a = Seq a (Seq a (Seq a (Seq a (Seq a (Star a)))))"

text \<open>
  \<open>re.search\<close>: the first start position, from the left, at which the pattern matches;
  the result is that position and the state at the end of the match.
\<close>

fun rx_search_from :: "regex \<Rightarrow> nat \<Rightarrow> char option \<Rightarrow> string \<Rightarrow> (nat \<times> mstate) option" where
  "rx_search_from rx i p [] =
     (case rx_run [Run rx] (i, p, [], []) of Some e \<Rightarrow> Some (i, e) | None \<Rightarrow> None)"
| "rx_search_from rx i p (c # cs) =
     (case rx_run [Run rx] (i, p, c # cs, []) of
        Some e \<Rightarrow> Some (i, e)
      | None \<Rightarrow> rx_search_from rx (Suc i) (Some c) cs)"

definition re_search :: "regex \<Rightarrow> string \<Rightarrow> (nat \<times> mstate) option" where
  "re_search rx text = rx_search_from rx 0 None text"

text \<open>The text of group \<open>n\<close> of a match (the empty string if the group did not take part).\<close>

fun group_span :: "nat \<Rightarrow> (nat \<times> nat \<times> nat) list \<Rightarrow> (nat \<times> nat) option" where
  "group_span n [] = None"
| "group_span n ((m, b, e) # gs) = (if m = n then Some (b, e) else group_span n gs)"

definition group_text :: "string \<Rightarrow> mstate \<Rightarrow> nat \<Rightarrow> string" where
  "group_text text e n =
     (case group_span n (st_groups e) of None \<Rightarrow> [] | Some (b, e') \<Rightarrow> take (e' - b) (drop b text))"

text \<open>
  \<open>re.sub\<close> and \<open>re.findall\<close> walk over the non-overlapping matches from the left. After
  an empty match the next match at the same position must not be empty again
  (\<open>allow\<close> is then False); every substitution pattern of the program consumes a
  character, so this case is here for completeness only.
\<close>

definition match_here :: "regex \<Rightarrow> bool \<Rightarrow> nat \<Rightarrow> char option \<Rightarrow> string \<Rightarrow> mstate option" where
  "match_here rx allow i p r =
     rx_run (if allow then [Run rx] else [Run rx, Progress (length r) Eps]) (i, p, r, [])"

function rx_sub_from ::
  "regex \<Rightarrow> (mstate \<Rightarrow> string) \<Rightarrow> nat \<Rightarrow> char option \<Rightarrow> string \<Rightarrow> bool \<Rightarrow> string" where
  "rx_sub_from rx repl i p r allow =
     (case match_here rx allow i p r of
        None \<Rightarrow> (case r of [] \<Rightarrow> [] | c # cs \<Rightarrow> c # rx_sub_from rx repl (Suc i) (Some c) cs True)
      | Some (i', p', r', g') \<Rightarrow>
          repl (i', p', r', g') @
          (if length r' < length r then rx_sub_from rx repl i' p' r' True
           else if allow then rx_sub_from rx repl i p r False
           else r))"
  by pat_completeness auto
termination
  by (relation "measures [\<lambda>(rx, repl, i, p, r, allow). length r,
                          \<lambda>(rx, repl, i, p, r, allow). if allow then 1 else 0]") auto

definition re_sub :: "regex \<Rightarrow> (string \<Rightarrow> mstate \<Rightarrow> string) \<Rightarrow> string \<Rightarrow> string" where
  "re_sub rx repl text = rx_sub_from rx (repl text) 0 None text True"

definition const_repl :: "string \<Rightarrow> string \<Rightarrow> mstate \<Rightarrow> string" where
  "const_repl s text e = s"

function rx_findall_from ::
  "regex \<Rightarrow> nat \<Rightarrow> char option \<Rightarrow> string \<Rightarrow> bool \<Rightarrow> (nat \<times> mstate) list" where
  "rx_findall_from rx i p r allow =
     (case match_here rx allow i p r of
        None \<Rightarrow> (case r of [] \<Rightarrow> [] | c # cs \<Rightarrow> rx_findall_from rx (Suc i) (Some c) cs True)
      | Some (i', p', r', g') \<Rightarrow>
          (i, (i', p', r', g')) #
          (if length r' < length r then rx_findall_from rx i' p' r' True
           else if allow then rx_findall_from rx i p r False
           else []))"
  by pat_completeness auto
termination
  by (relation "measures [\<lambda>(rx, i, p, r, allow). length r,
                          \<lambda>(rx, i, p, r, allow). if allow then 1 else 0]") auto

text \<open>\<open>re.findall\<close> for a pattern with exactly one group: the texts of group 1.\<close>

definition re_findall1 :: "regex \<Rightarrow> string \<Rightarrow> string list" where
  "re_findall1 rx text = map (\<lambda>(b, e). group_text text e 1) (rx_findall_from rx 0 None text True)"

text \<open>\<open>re.findall\<close> for a pattern without groups: the texts of the whole matches.\<close>

definition re_findall0 :: "regex \<Rightarrow> string \<Rightarrow> string list" where
  "re_findall0 rx text =
     map (\<lambda>(b, e). take (st_pos e - b) (drop b text)) (rx_findall_from rx 0 None text True)"

section \<open>Filename normalizer\<close>

text \<open>
  \<open>get_base_document_name\<close> of \<^verbatim>\<open>analyze_docs.py\<close>: strip \<^verbatim>\<open>.pdf\<close>, then the patterns
  \<^verbatim>\<open>\.\d+pdf$\<close> and \<^verbatim>\<open>\d+pdf$\<close> (both ignoring case), then surrounding whitespace.
\<close>

definition strip_pdf_ext :: "string \<Rightarrow> string" where
  "strip_pdf_ext name =
     (if endswith (py_lower name) ''.pdf'' then take (length name - 4) name else name)"

definition rx_dot_npdf :: regex where
  "rx_dot_npdf = Seq (lit ''.'') (Seq (plus is_digit) (Seq (lit_ci ''pdf'') Eos))"

definition rx_npdf :: regex where
  "rx_npdf = Seq (plus is_digit) (Seq (lit_ci ''pdf'') Eos)"

definition get_base_document_name :: "string \<Rightarrow> string" where
  "get_base_document_name filename =
     (let name = strip_pdf_ext filename;
          name = re_sub rx_dot_npdf (const_repl []) name;
          name = re_sub rx_npdf (const_repl []) name
      in py_strip name)"

text \<open>
  \<open>get_base_document_name\<close> of \<^verbatim>\<open>analyze_docs_claude.py\<close> (the same body is in
  \<^verbatim>\<open>audit_pipeline.py\<close> and \<^verbatim>\<open>test_multipage.py\<close>): as above, and then the pattern
  \<^verbatim>\<open>\s+\d{1,2}$\<close> (case-sensitive, which makes no difference for it) before the strip.
\<close>

definition rx_space_num :: regex where
  "rx_space_num =
     Seq (plus is_space) (Seq (Sym is_digit) (Seq (opt (Sym is_digit)) Eos))"

definition get_base_document_name_claude :: "string \<Rightarrow> string" where
  "get_base_document_name_claude filename =
     (let name = strip_pdf_ext filename;
          name = re_sub rx_dot_npdf (const_repl []) name;
          name = re_sub rx_npdf (const_repl []) name;
          name = re_sub rx_space_num (const_repl []) name
      in py_strip name)"

section \<open>Page grouper\<close>

text \<open>\<open>os.path.basename\<close>, \<open>os.path.dirname\<close> and \<open>os.path.join\<close> (of two parts) on POSIX.\<close>

definition basename :: "string \<Rightarrow> string" where
  "basename path = drop (nat (py_rfind path ''/'' + 1)) path"

definition dirname :: "string \<Rightarrow> string" where
  "dirname path =
     (let hd_part = take (nat (py_rfind path ''/'' + 1)) path
      in if hd_part \<noteq> [] \<and> hd_part \<noteq> replicate (length hd_part) CHR ''/''
         then rev (dropWhile (\<lambda>c. c = CHR ''/'') (rev hd_part)) else hd_part)"

definition path_join :: "string \<Rightarrow> string \<Rightarrow> string" where
  "path_join a b =
     (if startswith b ''/'' then b
      else if a = [] \<or> endswith a ''/'' then a @ b
      else a @ ''/'' @ b)"

text \<open>\<open>int(s)\<close> on a run of decimal digits.\<close>

definition digit_val :: "char \<Rightarrow> nat" where
  "digit_val c = of_char c - 48"

definition int_of_digits :: "string \<Rightarrow> nat" where
  "int_of_digits s = foldl (\<lambda>acc c. 10 * acc + digit_val c) 0 s"

text \<open>
  The sort key of \<^verbatim>\<open>analyze_docs.py\<close>: \<^verbatim>\<open>\.?(\d+)pdf\.pdf$\<close> gives the page number,
  a name without \<^verbatim>\<open>\d+pdf\.pdf$\<close> is a base page (0), anything else is 999.
\<close>

definition rx_page_explicit :: regex where
  "rx_page_explicit =
     Seq (opt (lit ''.'')) (Seq (Group 1 (plus is_digit)) (Seq (lit_ci ''pdf.pdf'') Eos))"

definition rx_numbered :: regex where
  "rx_numbered = Seq (plus is_digit) (Seq (lit_ci ''pdf.pdf'') Eos)"

definition page_sort_key :: "string \<Rightarrow> nat" where
  "page_sort_key path =
     (let filename = basename path in
      case re_search rx_page_explicit filename of
        Some (b, e) \<Rightarrow> int_of_digits (group_text filename e 1)
      | None \<Rightarrow> if re_search rx_numbered filename = None then 0 else 999)"

text \<open>
  The sort key of \<^verbatim>\<open>analyze_docs_claude.py\<close> (and \<^verbatim>\<open>audit_pipeline.py\<close>): between the two
  steps above it reads the number of \<^verbatim>\<open>\s+(\d{1,2})\.pdf$\<close>, and the base-page test is
  \<^verbatim>\<open>(\d+pdf\.pdf$|\s+\d{1,2}\.pdf$)\<close>.
\<close>

definition rx_page_spaced :: regex where
  "rx_page_spaced =
     Seq (plus is_space)
       (Seq (Group 1 (Seq (Sym is_digit) (opt (Sym is_digit)))) (Seq (lit_ci ''.pdf'') Eos))"

definition rx_numbered_claude :: regex where
  "rx_numbered_claude =
     Group 1 (Alt (Seq (plus is_digit) (Seq (lit_ci ''pdf.pdf'') Eos))
                  (Seq (plus is_space)
                     (Seq (Sym is_digit) (Seq (opt (Sym is_digit)) (Seq (lit_ci ''.pdf'') Eos)))))"

definition page_sort_key_claude :: "string \<Rightarrow> nat" where
  "page_sort_key_claude path =
     (let filename = basename path in
      case re_search rx_page_explicit filename of
        Some (b, e) \<Rightarrow> int_of_digits (group_text filename e 1)
      | None \<Rightarrow>
          (case re_search rx_page_spaced filename of
             Some (b, e) \<Rightarrow> int_of_digits (group_text filename e 1)
           | None \<Rightarrow> if re_search rx_numbered_claude filename = None then 0 else 999))"

text \<open>
  The scan of \<open>find_and_group_files\<close>: \<open>walk\<close> is what \<open>os.walk\<close> yields (a directory and
  the file names in it); directories of the output and of the virtual environment
  are skipped, and a file is taken when it ends in \<^verbatim>\<open>.pdf\<close> and contains a keyword.
\<close>

definition KEYWORDS :: "string list" where
  "KEYWORDS =
     [''Last Will'', ''Testament'', ''Purchase'', ''Sale'', ''Buy'', ''Sell'',
      ''Deed'', ''Declaration'', ''Power'', ''Attorney'', ''Atty'', ''Heir'',
      ''Partition'', ''Partioning'', ''Boundaries'', ''Boundary'', ''Boundries'',
      ''Transfer'', ''Mortgage'', ''Holdings'', ''Agreement'', ''Agmt'',
      ''Property'', ''Prop'', ''Finca'', ''Hacienda'', ''Dominio'',
      ''Compraventa'', ''Compra'', ''Venta'', ''Escritura'', ''Declaraci'' @ [CHR 0xF3] @ ''n'',
      ''Hipoteca'', ''Cancelacion'', ''Testamento'', ''Herencia'', ''Heredero'',
      ''Partici'' @ [CHR 0xF3] @ ''n'', ''Poder'', ''Linderos'', ''Expediente'']"

definition scan_pdfs :: "(string \<times> string list) list \<Rightarrow> string list" where
  "scan_pdfs walk =
     concat (map (\<lambda>(root, files).
       if py_in ''critical_files'' root \<or> py_in ''.venv'' root then []
       else map (path_join root)
              (filter (\<lambda>file. endswith (py_lower file) ''.pdf'' \<and>
                              list_ex (\<lambda>k. py_in (py_lower k) (py_lower file)) KEYWORDS) files))
       walk)"

text \<open>
  The grouping: a dictionary from the key (directory joined with the base name) to
  the paths, in the order in which the keys first appear; then every group is
  sorted by the sort key (Python's sort is stable, as \<open>sort_key\<close> is).
\<close>

fun group_append :: "string \<Rightarrow> string \<Rightarrow> (string \<times> string list) list \<Rightarrow> (string \<times> string list) list" where
  "group_append key path [] = [(key, [path])]"
| "group_append key path ((k, ps) # rest) =
     (if k = key then (k, ps @ [path]) # rest else (k, ps) # group_append key path rest)"

definition group_key :: "(string \<Rightarrow> string) \<Rightarrow> string \<Rightarrow> string" where
  "group_key norm path = path_join (dirname path) (norm (basename path))"

definition group_pages ::
  "(string \<Rightarrow> string) \<Rightarrow> (string \<Rightarrow> nat) \<Rightarrow> string list \<Rightarrow> (string \<times> string list) list" where
  "group_pages norm rank all_pdfs =
     map (\<lambda>(k, ps). (k, sort_key rank ps))
       (foldl (\<lambda>grouped path. group_append (group_key norm path) path grouped) [] all_pdfs)"


definition find_and_group_files_claude ::
  "(string \<times> string list) list \<Rightarrow> (string \<times> string list) list" where
  "find_and_group_files_claude walk =
     group_pages get_base_document_name_claude page_sort_key_claude (scan_pdfs walk)"

section \<open>OCR text cleaner\<close>

text \<open>
  A rule \<^verbatim>\<open>\bWORD\b\<close> under \<open>re.IGNORECASE\<close>, a character set under \<open>re.IGNORECASE\<close>,
  and a list of (pattern, replacement) pairs applied in order with \<open>re.sub\<close>.
\<close>

definition word_rule :: "string \<Rightarrow> regex" where
  "word_rule w = Seq Bnd (Seq (lit_ci w) Bnd)"

definition ci_set :: "string \<Rightarrow> char \<Rightarrow> bool" where
  "ci_set s c = (py_lower_char c \<in> set s)"

definition apply_rules :: "(regex \<times> string) list \<Rightarrow> string \<Rightarrow> string" where
  "apply_rules rules text = foldl (\<lambda>t (rx, r). re_sub rx (const_repl r) t) text rules"

text \<open>\<^verbatim>\<open>\b0\b(?=\s+sea[ns]?\b)\<close> and \<^verbatim>\<open>\b0\b(?=\s+[aeiou])\<close>.\<close>

definition rx_zero_before_sea :: regex where
  "rx_zero_before_sea =
     Seq Bnd (Seq (lit_ci ''0'') (Seq Bnd
       (Look (Seq (plus is_space) (Seq (lit_ci ''sea'') (Seq (opt (Sym (ci_set ''ns''))) Bnd))))))"

definition rx_zero_before_vowel :: regex where
  "rx_zero_before_vowel =
     Seq Bnd (Seq (lit_ci ''0'') (Seq Bnd (Look (Seq (plus is_space) (Sym (ci_set ''aeiou''))))))"

definition OCR_CORRECTIONS :: "(regex \<times> string) list" where
  "OCR_CORRECTIONS =
     [(word_rule ''1os'', ''los''),
      (word_rule ''1a'', ''la''),
      (word_rule ''1as'', ''las''),
      (word_rule ''e1'', ''el''),
      (word_rule ''de1'', ''del''),
      (word_rule ''s1'', ''si''),
      (word_rule ''H1l'', ''Mil''),
      (word_rule ''ne8='', ''mes''),
      (rx_zero_before_sea, ''o'')]"

definition ocr_fixes :: "(regex \<times> string) list" where
  "ocr_fixes =
     [(word_rule ''1a'', ''la''),
      (word_rule ''1as'', ''las''),
      (word_rule ''1os'', ''los''),
      (word_rule ''e1'', ''el''),
      (word_rule ''de1'', ''del''),
      (word_rule ''s1'', ''si''),
      (word_rule ''n1'', ''ni''),
      (word_rule ''a1'', ''al''),
      (rx_zero_before_vowel, ''o''),
      (word_rule ''quc'', ''que''),
      (word_rule ''dcl'', ''del''),
      (word_rule ''dcb'', ''deb''),
      (word_rule ''ccn'', ''con''),
      (word_rule ''ncn'', ''non''),
      (word_rule ''lcs'', ''los''),
      (word_rule ''csf'', ''est''),
      (word_rule (''ost'' @ [CHR 0xE1]), ''est'' @ [CHR 0xE1]),
      (word_rule (''est'' @ [CHR 0xE1]), ''est'' @ [CHR 0xE1]),
      (word_rule ''scr'', ''ser''),
      (word_rule ''pcr'', ''por''),
      (word_rule ''pGr'', ''por''),
      (word_rule ''cc'', ''cc''),
      (word_rule ''ll'', ''ll''),
      (word_rule ''debc'', ''debe''),
      (word_rule ''dcbe'', ''debe''),
      (word_rule ''hacc'', ''hace''),
      (word_rule ''misno'', ''mismo''),
      (word_rule ''nisma'', ''misma''),
      (word_rule ''nismo'', ''mismo''),
      (word_rule ''sobrc'', ''sobre''),
      (word_rule ''entrc'', ''entre''),
      (word_rule ''ticne'', ''tiene''),
      (word_rule ''pucde'', ''puede''),
      (word_rule ''donde'', ''donde''),
      (word_rule ''cuando'', ''cuando''),
      (word_rule ''todos'', ''todos''),
      (word_rule ''cada'', ''cada''),
      (word_rule ''esta'', ''esta''),
      (word_rule ''este'', ''este''),
      (word_rule ''esos'', ''esos''),
      (word_rule ''esas'', ''esas''),
      (word_rule ''notario'', ''notario''),
      (word_rule ''notaric'', ''notario''),
      (word_rule ''escritura'', ''escritura''),
      (word_rule ''finca'', ''finca''),
      (word_rule ''propiedad'', ''propiedad''),
      (word_rule ''propictario'', ''propietario''),
      (word_rule ''inmucble'', ''inmueble''),
      (word_rule ''inmucbles'', ''inmuebles''),
      (word_rule ''hipotcca'', ''hipoteca''),
      (word_rule ''tcstamento'', ''testamento''),
      (word_rule ''heredcro'', ''heredero''),
      (word_rule ''planilla'', ''planilla''),
      (word_rule ''planille'', ''planilla''),
      (word_rule ''Encro'', ''Enero''),
      (word_rule ''Fcbrero'', ''Febrero''),
      (word_rule ''Marzo'', ''Marzo''),
      (word_rule ''Abril'', ''Abril''),
      (word_rule ''Mayo'', ''Mayo''),
      (word_rule ''Junio'', ''Junio''),
      (word_rule ''Julio'', ''Julio''),
      (word_rule ''Agosto'', ''Agosto''),
      (word_rule ''Scptiembre'', ''Septiembre''),
      (word_rule ''Octubre'', ''Octubre''),
      (word_rule ''Novicmbre'', ''Noviembre''),
      (word_rule ''Dicicmbre'', ''Diciembre'')]"

definition spanish_spell_correct :: "string \<Rightarrow> string" where
  "spanish_spell_correct text = apply_rules ocr_fixes text"

text \<open>\<^verbatim>\<open>(\s)V(\s)\<close>, case-sensitive, replaced by \<^verbatim>\<open>\1y\2\<close>.\<close>

definition rx_lone_V :: regex where
  "rx_lone_V = Seq (Group 1 (Sym is_space)) (Seq (lit ''V'') (Group 2 (Sym is_space)))"

definition repl_y :: "string \<Rightarrow> mstate \<Rightarrow> string" where
  "repl_y text e = group_text text e 1 @ ''y'' @ group_text text e 2"

definition clean_ocr_text :: "string \<Rightarrow> bool \<Rightarrow> string" where
  "clean_ocr_text text use_spellcheck =
     (let cleaned = apply_rules OCR_CORRECTIONS text;
          cleaned = re_sub rx_lone_V repl_y cleaned
      in if use_spellcheck then spanish_spell_correct cleaned else cleaned)"

section \<open>Repetition suppressor\<close>

definition truncation_marker :: string where
  "truncation_marker =
     [CHR 0x0A, CHR 0x0A] @ ''*[Translation truncated - repetitive output detected]*''"

text \<open>
  Method 1. The phrases of length \<open>k\<close> with their positions, for
  \<open>i\<close> in \<open>range(len(words) - k + 1)\<close>; a \<open>Counter\<close> as the list of (key, count) in the
  order in which the keys first appear; the first position of a phrase.
\<close>

definition phrases_of :: "nat \<Rightarrow> string list \<Rightarrow> (string \<times> nat) list" where
  "phrases_of k words =
     map (\<lambda>i. (py_join '' '' (take k (drop i words)), i)) [0 ..< Suc (length words) - k]"

fun counter_add :: "string \<Rightarrow> (string \<times> nat) list \<Rightarrow> (string \<times> nat) list" where
  "counter_add x [] = [(x, 1)]"
| "counter_add x ((y, n) # m) = (if y = x then (y, n + 1) # m else (y, n) # counter_add x m)"

definition counter :: "string list \<Rightarrow> (string \<times> nat) list" where
  "counter xs = foldl (\<lambda>m x. counter_add x m) [] xs"

fun first_pos :: "string \<Rightarrow> (string \<times> nat) list \<Rightarrow> nat option" where
  "first_pos phrase [] = None"
| "first_pos phrase ((p, pos) # ps) = (if p = phrase then Some pos else first_pos phrase ps)"

text \<open>
  The output when the words are cut after the first \<open>n\<close>: back to the last \<^verbatim>\<open>. \<close> if it
  lies past the middle of what is left, and the marker.
\<close>

definition cut_at_sentence :: "string \<Rightarrow> string" where
  "cut_at_sentence result =
     (let last_period = py_rfind result ''. ''
      in if last_period > int (length result) div 2
         then take (nat (last_period + 1)) result else result)"

definition truncate_words :: "string list \<Rightarrow> nat \<Rightarrow> string" where
  "truncate_words words n = cut_at_sentence (py_join '' '' (take n words)) @ truncation_marker"

fun scan_counts ::
  "string list \<Rightarrow> nat \<Rightarrow> (string \<times> nat) list \<Rightarrow> (string \<times> nat) list \<Rightarrow> string option" where
  "scan_counts words k phrases [] = None"
| "scan_counts words k phrases ((phrase, count) # items) =
     (if count \<ge> 4 then
        (case first_pos phrase phrases of
           Some fp \<Rightarrow>
             if fp \<noteq> 0 \<and> fp > length words div 4 then Some (truncate_words words (fp + k))
             else scan_counts words k phrases items
         | None \<Rightarrow> scan_counts words k phrases items)
      else scan_counts words k phrases items)"

definition repeated_phrase :: "string list \<Rightarrow> nat \<Rightarrow> string option" where
  "repeated_phrase words k =
     scan_counts words k (phrases_of k words) (counter (map fst (phrases_of k words)))"

fun method1 :: "nat list \<Rightarrow> string list \<Rightarrow> string option" where
  "method1 [] words = None"
| "method1 (k # ks) words =
     (case repeated_phrase words k of Some out \<Rightarrow> Some out | None \<Rightarrow> method1 ks words)"

text \<open>
  Method 2: \<^verbatim>\<open>(of the \w+ of the \w+\s*){3,}\<close>, \<^verbatim>\<open>(the totals? of\s*){3,}\<close> and
  \<^verbatim>\<open>(\w+ of the \w+\s*){5,}\<close>, searched in this order in the words joined by spaces.
\<close>

definition repetitive_patterns :: "regex list" where
  "repetitive_patterns =
     [three_or_more (Group 1 (Seq (lit ''of the '') (Seq (plus is_word)
        (Seq (lit '' of the '') (Seq (plus is_word) (Many is_space)))))),
      three_or_more (Group 1 (Seq (lit ''the total'') (Seq (opt (lit ''s''))
        (Seq (lit '' of'') (Many is_space))))),
      five_or_more (Group 1 (Seq (plus is_word) (Seq (lit '' of the '')
        (Seq (plus is_word) (Many is_space)))))]"

definition truncate_before :: "string \<Rightarrow> nat \<Rightarrow> string" where
  "truncate_before pattern_text start_pos =
     (let truncated = take start_pos pattern_text;
          last_period = py_rfind truncated ''. ''
      in if last_period > int (length truncated) div 2
         then take (nat (last_period + 1)) truncated @ truncation_marker
         else py_rstrip truncated @ truncation_marker)"

fun method2 :: "regex list \<Rightarrow> string \<Rightarrow> string option" where
  "method2 [] pattern_text = None"
| "method2 (pattern # patterns) pattern_text =
     (case re_search pattern pattern_text of
        Some (start_pos, e) \<Rightarrow>
          if start_pos > length pattern_text div 4
          then Some (truncate_before pattern_text start_pos)
          else method2 patterns pattern_text
      | None \<Rightarrow> method2 patterns pattern_text)"

definition clean_translation :: "string \<Rightarrow> string" where
  "clean_translation text =
     (let words = py_split text in
      if length words < 20 then text
      else (case method1 [6, 5, 4, 3] words of
              Some out \<Rightarrow> out
            | None \<Rightarrow>
                (case method2 repetitive_patterns (py_join '' '' words) of
                   Some out \<Rightarrow> out
                 | None \<Rightarrow> text)))"

section \<open>Document classifier\<close>

definition DOCUMENT_TYPES :: "(string \<times> string list) list" where
  "DOCUMENT_TYPES =
     [(''Last Will and Testament'',
        [''last will'', ''testament'', ''testamento'', [CHR 0xFA] @ ''ltima voluntad'', ''herederos'']),
      (''Purchase & Sale Agreement'',
        [''purchase'', ''sale'', ''compraventa'', ''compra'', ''venta'', ''buy'', ''sell'']),
      (''Property Deed'',
        [''deed'', ''escritura'', ''escritura p'' @ [CHR 0xFA] @ ''blica'', ''t'' @ [CHR 0xED] @ ''tulo'']),
      (''Power of Attorney'',
        [''power of attorney'', ''poder'', ''atty'', ''attorney'', ''apoderado'']),
      (''Property Partition'',
        [''partition'', ''partici'' @ [CHR 0xF3] @ ''n'', ''partioning'', ''divisi'' @ [CHR 0xF3] @ ''n'', ''segregaci'' @ [CHR 0xF3] @ ''n'']),
      (''Mortgage Document'',
        [''mortgage'', ''hipoteca'', ''cancelacion de hipoteca'', ''gravamen'']),
      (''Property Declaration'',
        [''declaration'', ''declaraci'' @ [CHR 0xF3] @ ''n'', ''declaratoria'']),
      (''Land Boundary Survey'',
        [''boundaries'', ''boundary'', ''boundries'', ''linderos'', ''deslinde'', ''demarcaci'' @ [CHR 0xF3] @ ''n'']),
      (''Property Transfer'',
        [''transfer'', ''transferencia'', ''cesi'' @ [CHR 0xF3] @ ''n'', ''traspaso'']),
      (''Property Holdings Record'',
        [''holdings'', ''bienes'', ''propiedades'', ''inmuebles'']),
      (''Heir Documentation'',
        [''heir'', ''heredero'', ''herencia'', ''sucesi'' @ [CHR 0xF3] @ ''n'', ''co-heir'']),
      (''Tax/Assessment Document'',
        [''tax'', ''impuesto'', ''millage'', ''contribuci'' @ [CHR 0xF3] @ ''n'', ''aval'' @ [CHR 0xFA] @ ''o'']),
      (''Land Registry Document'',
        [''registry'', ''registro'', ''inscripci'' @ [CHR 0xF3] @ ''n'', ''anotaci'' @ [CHR 0xF3] @ ''n'']),
      (''Administrative Form'',
        [''planilla'', ''formulario'', ''solicitud'', ''check off''])]"

definition keyword_score :: "string \<Rightarrow> string list \<Rightarrow> nat" where
  "keyword_score combined keywords =
     length (filter (\<lambda>kw. py_in (py_lower kw) combined) keywords)"

definition type_scores :: "string \<Rightarrow> (string \<times> nat) list" where
  "type_scores combined =
     filter (\<lambda>(doc_type, score). score > 0)
       (map (\<lambda>(doc_type, keywords). (doc_type, keyword_score combined keywords)) DOCUMENT_TYPES)"

text \<open>\<open>max(scores, key=scores.get)\<close>: the first key, in the order of the dictionary, with
  the greatest value.\<close>

fun max_by_score :: "(string \<times> nat) \<Rightarrow> (string \<times> nat) list \<Rightarrow> (string \<times> nat)" where
  "max_by_score best [] = best"
| "max_by_score best (x # xs) = max_by_score (if snd x > snd best then x else best) xs"

definition confidence_of :: "nat \<Rightarrow> string" where
  "confidence_of score = (if score \<ge> 3 then ''High'' else if score \<ge> 2 then ''Medium'' else ''Low'')"

definition classify_document :: "string \<Rightarrow> string \<Rightarrow> string \<times> string" where
  "classify_document filename text =
     (case type_scores (py_lower (filename @ '' '' @ text)) of
        [] \<Rightarrow> (''Unclassified Legal Document'', ''Low'')
      | x # xs \<Rightarrow> (fst (max_by_score x xs), confidence_of (snd (max_by_score x xs))))"

section \<open>Party extraction\<close>

text \<open>
  Under \<open>re.IGNORECASE\<close> the class \<^verbatim>\<open>[A-Z]\<close> is any ASCII letter and
  \<^verbatim>\<open>[a-z\<dots>]\<close> with the accented vowels and the n with tilde is any of these in either
  case; \<open>name_rx\<close> is \<^verbatim>\<open>[A-Z][a-z\<dots>]+\<close>.
\<close>

definition KNOWN_FAMILIES :: "string list" where
  "KNOWN_FAMILIES = [''Rodriguez'', ''Rodriquez'', ''Queral'', ''Ceresa'', ''Cartaya'', ''Garcia'', ''Elizalde'', ''Tellez'', ''Giron'', ''Sanz'', ''Berga'', ''Pe'' @ [CHR 0xF1] @ ''a'', ''Cruz'', ''Diaz'', ''Meneses'']"

definition upper_ci :: "char \<Rightarrow> bool" where
  "upper_ci c = (py_lower_char c \<in> set ''abcdefghijklmnopqrstuvwxyz'')"

definition lower_ci :: "char \<Rightarrow> bool" where
  "lower_ci c = (py_lower_char c \<in> set (''abcdefghijklmnopqrstuvwxyz'' @
     [CHR 0xE1, CHR 0xE9, CHR 0xED, CHR 0xF3, CHR 0xFA, CHR 0xF1]))"

definition name_rx :: regex where
  "name_rx = Seq (Sym upper_ci) (plus lower_ci)"

definition family_patterns :: "string \<Rightarrow> regex list" where
  "family_patterns family =
     [Seq Bnd (Seq (Group 1 name_rx) (Seq (plus is_space) (Seq (lit_ci family) Bnd))),
      Seq Bnd (Seq (lit_ci family) (Seq (plus is_space) (Seq (Group 1 name_rx) Bnd))),
      Seq Bnd (Seq (Group 1 name_rx) (Seq (plus is_space) (Seq name_rx
        (Seq (plus is_space) (Seq (lit_ci family) Bnd)))))]"

definition full_pattern :: "string \<Rightarrow> regex" where
  "full_pattern family =
     Seq Bnd (Seq name_rx (Seq (Star (Seq (plus is_space) name_rx))
       (Seq (Many is_space) (Seq (lit_ci family)
         (Seq (Star (Seq (plus is_space) name_rx)) Bnd)))))"

definition more_names :: regex where
  "more_names =
     Seq (Seq (plus is_space) name_rx)
       (opt (Seq (Seq (plus is_space) name_rx) (opt (Seq (plus is_space) name_rx))))"

definition title_patterns :: "regex list" where
  "title_patterns =
     [Seq Bnd (Seq (Alt (lit_ci ''Don'') (Alt (lit_ci (''Do'' @ [CHR 0xF1] @ ''a''))
        (Alt (lit_ci ''Sr.'') (Alt (lit_ci ''Sra.'') (Alt (lit_ci (''Se'' @ [CHR 0xF1] @ ''or''))
          (lit_ci (''Se'' @ [CHR 0xF1] @ ''ora'')))))))
        (Seq (plus is_space) (Group 1 (Seq name_rx more_names)))),
      Seq Bnd (Seq (Alt (lit_ci (''el se'' @ [CHR 0xF1] @ ''or''))
                        (lit_ci (''la se'' @ [CHR 0xF1] @ ''ora'')))
        (Seq (plus is_space) (Group 1 (Seq name_rx more_names))))]"

text \<open>The set of parties is kept as a list without repetitions.\<close>

definition set_add :: "string \<Rightarrow> string list \<Rightarrow> string list" where
  "set_add x xs = (if x \<in> set xs then xs else xs @ [x])"

definition add_full_matches :: "string \<Rightarrow> string \<Rightarrow> string list \<Rightarrow> string list" where
  "add_full_matches family text parties =
     foldl (\<lambda>ps fm. if length fm > 5 then set_add (py_strip fm) ps else ps) parties
       (re_findall0 (full_pattern family) text)"

definition add_family :: "string \<Rightarrow> string list \<Rightarrow> string \<Rightarrow> string list" where
  "add_family text parties family =
     foldl (\<lambda>ps pattern.
              foldl (\<lambda>ps' m. if length m > 2 then add_full_matches family text ps' else ps') ps
                (re_findall1 pattern text))
       parties (family_patterns family)"

definition add_titles :: "string \<Rightarrow> string list \<Rightarrow> string list" where
  "add_titles text parties =
     foldl (\<lambda>ps pattern.
              foldl (\<lambda>ps' m. if length m > 5 then set_add (py_strip m) ps' else ps') ps
                (re_findall1 pattern text))
       parties title_patterns"

text \<open>
  \<open>list(parties)[:10]\<close>: the order in which Python lists a set is not fixed by the
  program, so it is a parameter \<open>listing\<close> of the model.
\<close>

definition extract_parties :: "(string list \<Rightarrow> string list) \<Rightarrow> string \<Rightarrow> string list" where
  "extract_parties listing text =
     take 10 (listing (add_titles text (foldl (add_family text) [] KNOWN_FAMILIES)))"

section \<open>Relevance scorer\<close>

definition high_value_types :: "string list" where
  "high_value_types = [''Last Will and Testament'', ''Purchase & Sale Agreement'',
     ''Property Deed'', ''Property Partition'', ''Heir Documentation'']"

definition medium_value_types :: "string list" where
  "medium_value_types = [''Power of Attorney'', ''Land Boundary Survey'',
     ''Property Transfer'', ''Mortgage Document'']"

definition key_families :: "string list" where
  "key_families = [''Ceresa'', ''Rodriguez'', ''Queral'']"

definition key_props :: "string list" where
  "key_props = [''Villa Aurelia'', ''Aguaras'']"

definition matches_any :: "string list \<Rightarrow> string \<Rightarrow> bool" where
  "matches_any keys p = list_ex (\<lambda>f. py_in (py_lower f) (py_lower p)) keys"

definition found_families :: "string list \<Rightarrow> string list" where
  "found_families parties = filter (matches_any key_families) parties"

definition found_props :: "string list \<Rightarrow> string list" where
  "found_props properties = filter (matches_any key_props) properties"

definition type_points :: "string \<Rightarrow> nat" where
  "type_points doc_type =
     (if doc_type \<in> set high_value_types then 3
      else if doc_type \<in> set medium_value_types then 2 else 1)"

definition relevance_score :: "string \<Rightarrow> string list \<Rightarrow> string list \<Rightarrow> nat" where
  "relevance_score doc_type parties properties =
     type_points doc_type
     + (if found_families parties \<noteq> [] then 2 else 0)
     + (if found_props properties \<noteq> [] then 2 else 0)"

definition relevance_reasons :: "string \<Rightarrow> string list \<Rightarrow> string list \<Rightarrow> string list" where
  "relevance_reasons doc_type parties properties =
     [''Document type '' @ [CHR 0x27] @ doc_type @ [CHR 0x27] @
        (if doc_type \<in> set high_value_types then '' is directly relevant to ownership claims''
         else if doc_type \<in> set medium_value_types then '' may support ownership chain''
         else '' provides contextual information'')]
     @ (if found_families parties \<noteq> []
        then [''References key family members: '' @ py_join '', '' (take 3 (found_families parties))]
        else [])
     @ (if found_props properties \<noteq> []
        then [''References target properties: '' @ py_join '', '' (found_props properties)]
        else [])"

definition level_of :: "nat \<Rightarrow> string" where
  "level_of score =
     (if score \<ge> 5 then ''CRITICAL'' else if score \<ge> 3 then ''HIGH''
      else if score \<ge> 2 then ''MEDIUM'' else ''LOW'')"

definition assess_legal_relevance ::
  "string \<Rightarrow> string list \<Rightarrow> string list \<Rightarrow> string \<Rightarrow> string \<times> string list" where
  "assess_legal_relevance doc_type parties properties text =
     (level_of (relevance_score doc_type parties properties),
      relevance_reasons doc_type parties properties)"

text \<open>The order of the four levels.\<close>

definition level_rank :: "string \<Rightarrow> nat" where
  "level_rank level =
     (if level = ''CRITICAL'' then 3 else if level = ''HIGH'' then 2
      else if level = ''MEDIUM'' then 1 else 0)"

section \<open>Chunked translator\<close>

text \<open>
  The translator is a parameter: it returns the translated text (\<open>Inr\<close>) or raises
  an exception with a message (\<open>Inl\<close>). One round of the loop takes the window from
  \<open>start\<close> to \<open>chunk_end\<close> and moves the cursor to \<open>next_start\<close>. The loop keeps, for
  every chunk, its window and its translation; it may run forever, which is the
  result \<open>None\<close>.
\<close>

definition chunk_end :: "string \<Rightarrow> int \<Rightarrow> int \<Rightarrow> int" where
  "chunk_end text chunk_size start =
     (let end = min (start + chunk_size) (int (length text)) in
      if end < int (length text)
      then (let last_period = py_rfind_in text ''.'' (end - 200) end
            in if last_period > start then last_period + 1 else end)
      else end)"

definition next_start :: "string \<Rightarrow> int \<Rightarrow> int \<Rightarrow> int \<Rightarrow> int" where
  "next_start text overlap start end =
     (if start = 0 then end else if end < int (length text) then end - overlap else end)"

definition translate_chunk :: "(string \<Rightarrow> string + string) \<Rightarrow> string \<Rightarrow> string" where
  "translate_chunk translator chunk =
     (case translator chunk of
        Inr translation \<Rightarrow> translation
      | Inl e \<Rightarrow> ''[Translation error: '' @ take 50 e @ '']'')"

partial_function (option) chunk_loop ::
  "(string \<Rightarrow> string + string) \<Rightarrow> string \<Rightarrow> int \<Rightarrow> int \<Rightarrow> int \<Rightarrow> (int \<times> int \<times> string) list
     \<Rightarrow> (int \<times> int \<times> string) list option" where
  "chunk_loop translator text chunk_size overlap start chunks =
     (if start < int (length text)
      then chunk_loop translator text chunk_size overlap
             (next_start text overlap start (chunk_end text chunk_size start))
             (chunks @ [(start, chunk_end text chunk_size start,
                         translate_chunk translator
                           (py_slice text start (chunk_end text chunk_size start)))])
      else Some chunks)"

definition translate_in_chunks ::
  "(string \<Rightarrow> string + string) \<Rightarrow> string \<Rightarrow> int \<Rightarrow> int \<Rightarrow> (string + string) option" where
  "translate_in_chunks translator text chunk_size overlap =
     (if int (length text) \<le> chunk_size then Some (translator text)
      else (case chunk_loop translator text chunk_size overlap 0 [] of
              None \<Rightarrow> None
            | Some chunks \<Rightarrow> Some (Inr (py_join '' '' (map (\<lambda>(s, e, t). t) chunks)))))"

text \<open>A backend that returns its input, for the concrete runs below.\<close>

definition echo_translator :: "string \<Rightarrow> string + string" where
  "echo_translator chunk = Inr chunk"

section \<open>Properties\<close>

subsection \<open>Evaluation\<close>

text \<open>
  The character classes on the characters of the examples, and the rules with which
  the simplifier runs the definitions on a concrete input: positions are counted
  with \<open>Suc\<close>, two strings are compared from the left, and the branches of a
  conditional are looked at only when its condition has been decided.
\<close>

lemma is_word_table:
  "is_word CHR ''a''" "is_word CHR ''b''" "is_word CHR ''c''"
  "is_word CHR ''d''" "is_word CHR ''e''" "is_word CHR ''f''"
  "is_word CHR ''g''" "is_word CHR ''h''" "is_word CHR ''i''"
  "is_word CHR ''j''" "is_word CHR ''k''" "is_word CHR ''l''"
  "is_word CHR ''m''" "is_word CHR ''n''" "is_word CHR ''o''"
  "is_word CHR ''p''" "is_word CHR ''q''" "is_word CHR ''r''"
  "is_word CHR ''s''" "is_word CHR ''t''" "is_word CHR ''u''"
  "is_word CHR ''v''" "is_word CHR ''w''" "is_word CHR ''x''"
  "is_word CHR ''y''" "is_word CHR ''z''" "is_word CHR ''A''"
  "is_word CHR ''B''" "is_word CHR ''C''" "is_word CHR ''D''"
  "is_word CHR ''E''" "is_word CHR ''F''" "is_word CHR ''G''"
  "is_word CHR ''H''" "is_word CHR ''I''" "is_word CHR ''J''"
  "is_word CHR ''K''" "is_word CHR ''L''" "is_word CHR ''M''"
  "is_word CHR ''N''" "is_word CHR ''O''" "is_word CHR ''P''"
  "is_word CHR ''Q''" "is_word CHR ''R''" "is_word CHR ''S''"
  "is_word CHR ''T''" "is_word CHR ''U''" "is_word CHR ''V''"
  "is_word CHR ''W''" "is_word CHR ''X''" "is_word CHR ''Y''"
  "is_word CHR ''Z''" "is_word CHR ''0''" "is_word CHR ''1''"
  "is_word CHR ''2''" "is_word CHR ''3''" "is_word CHR ''4''"
  "is_word CHR ''5''" "is_word CHR ''6''" "is_word CHR ''7''"
  "is_word CHR ''8''" "is_word CHR ''9''" "\<not> is_word CHR '' ''"
  "\<not> is_word CHR ''.''" "\<not> is_word CHR ''/''" "\<not> is_word CHR ''=''"
  "\<not> is_word CHR 0x0A" "is_word CHR 0xE1"
  by (simp_all add: is_word_def)

lemma is_space_table:
  "\<not> is_space CHR ''a''" "\<not> is_space CHR ''b''" "\<not> is_space CHR ''c''"
  "\<not> is_space CHR ''d''" "\<not> is_space CHR ''e''" "\<not> is_space CHR ''f''"
  "\<not> is_space CHR ''g''" "\<not> is_space CHR ''h''" "\<not> is_space CHR ''i''"
  "\<not> is_space CHR ''j''" "\<not> is_space CHR ''k''" "\<not> is_space CHR ''l''"
  "\<not> is_space CHR ''m''" "\<not> is_space CHR ''n''" "\<not> is_space CHR ''o''"
  "\<not> is_space CHR ''p''" "\<not> is_space CHR ''q''" "\<not> is_space CHR ''r''"
  "\<not> is_space CHR ''s''" "\<not> is_space CHR ''t''" "\<not> is_space CHR ''u''"
  "\<not> is_space CHR ''v''" "\<not> is_space CHR ''w''" "\<not> is_space CHR ''x''"
  "\<not> is_space CHR ''y''" "\<not> is_space CHR ''z''" "\<not> is_space CHR ''A''"
  "\<not> is_space CHR ''B''" "\<not> is_space CHR ''C''" "\<not> is_space CHR ''D''"
  "\<not> is_space CHR ''E''" "\<not> is_space CHR ''F''" "\<not> is_space CHR ''G''"
  "\<not> is_space CHR ''H''" "\<not> is_space CHR ''I''" "\<not> is_space CHR ''J''"
  "\<not> is_space CHR ''K''" "\<not> is_space CHR ''L''" "\<not> is_space CHR ''M''"
  "\<not> is_space CHR ''N''" "\<not> is_space CHR ''O''" "\<not> is_space CHR ''P''"
  "\<not> is_space CHR ''Q''" "\<not> is_space CHR ''R''" "\<not> is_space CHR ''S''"
  "\<not> is_space CHR ''T''" "\<not> is_space CHR ''U''" "\<not> is_space CHR ''V''"
  "\<not> is_space CHR ''W''" "\<not> is_space CHR ''X''" "\<not> is_space CHR ''Y''"
  "\<not> is_space CHR ''Z''" "\<not> is_space CHR ''0''" "\<not> is_space CHR ''1''"
  "\<not> is_space CHR ''2''" "\<not> is_space CHR ''3''" "\<not> is_space CHR ''4''"
  "\<not> is_space CHR ''5''" "\<not> is_space CHR ''6''" "\<not> is_space CHR ''7''"
  "\<not> is_space CHR ''8''" "\<not> is_space CHR ''9''" "is_space CHR '' ''"
  "\<not> is_space CHR ''.''" "\<not> is_space CHR ''/''" "\<not> is_space CHR ''=''"
  "is_space CHR 0x0A" "\<not> is_space CHR 0xE1"
  by (simp_all add: is_space_def)

lemma is_digit_table:
  "\<not> is_digit CHR ''a''" "\<not> is_digit CHR ''b''" "\<not> is_digit CHR ''c''"
  "\<not> is_digit CHR ''d''" "\<not> is_digit CHR ''e''" "\<not> is_digit CHR ''f''"
  "\<not> is_digit CHR ''g''" "\<not> is_digit CHR ''h''" "\<not> is_digit CHR ''i''"
  "\<not> is_digit CHR ''j''" "\<not> is_digit CHR ''k''" "\<not> is_digit CHR ''l''"
  "\<not> is_digit CHR ''m''" "\<not> is_digit CHR ''n''" "\<not> is_digit CHR ''o''"
  "\<not> is_digit CHR ''p''" "\<not> is_digit CHR ''q''" "\<not> is_digit CHR ''r''"
  "\<not> is_digit CHR ''s''" "\<not> is_digit CHR ''t''" "\<not> is_digit CHR ''u''"
  "\<not> is_digit CHR ''v''" "\<not> is_digit CHR ''w''" "\<not> is_digit CHR ''x''"
  "\<not> is_digit CHR ''y''" "\<not> is_digit CHR ''z''" "\<not> is_digit CHR ''A''"
  "\<not> is_digit CHR ''B''" "\<not> is_digit CHR ''C''" "\<not> is_digit CHR ''D''"
  "\<not> is_digit CHR ''E''" "\<not> is_digit CHR ''F''" "\<not> is_digit CHR ''G''"
  "\<not> is_digit CHR ''H''" "\<not> is_digit CHR ''I''" "\<not> is_digit CHR ''J''"
  "\<not> is_digit CHR ''K''" "\<not> is_digit CHR ''L''" "\<not> is_digit CHR ''M''"
  "\<not> is_digit CHR ''N''" "\<not> is_digit CHR ''O''" "\<not> is_digit CHR ''P''"
  "\<not> is_digit CHR ''Q''" "\<not> is_digit CHR ''R''" "\<not> is_digit CHR ''S''"
  "\<not> is_digit CHR ''T''" "\<not> is_digit CHR ''U''" "\<not> is_digit CHR ''V''"
  "\<not> is_digit CHR ''W''" "\<not> is_digit CHR ''X''" "\<not> is_digit CHR ''Y''"
  "\<not> is_digit CHR ''Z''" "is_digit CHR ''0''" "is_digit CHR ''1''"
  "is_digit CHR ''2''" "is_digit CHR ''3''" "is_digit CHR ''4''"
  "is_digit CHR ''5''" "is_digit CHR ''6''" "is_digit CHR ''7''"
  "is_digit CHR ''8''" "is_digit CHR ''9''" "\<not> is_digit CHR '' ''"
  "\<not> is_digit CHR ''.''" "\<not> is_digit CHR ''/''" "\<not> is_digit CHR ''=''"
  "\<not> is_digit CHR 0x0A" "\<not> is_digit CHR 0xE1"
  by (simp_all add: is_digit_def)

lemma py_lower_char_table:
  "py_lower_char CHR ''a'' = CHR ''a''" "py_lower_char CHR ''b'' = CHR ''b''"
  "py_lower_char CHR ''c'' = CHR ''c''" "py_lower_char CHR ''d'' = CHR ''d''"
  "py_lower_char CHR ''e'' = CHR ''e''" "py_lower_char CHR ''f'' = CHR ''f''"
  "py_lower_char CHR ''g'' = CHR ''g''" "py_lower_char CHR ''h'' = CHR ''h''"
  "py_lower_char CHR ''i'' = CHR ''i''" "py_lower_char CHR ''j'' = CHR ''j''"
  "py_lower_char CHR ''k'' = CHR ''k''" "py_lower_char CHR ''l'' = CHR ''l''"
  "py_lower_char CHR ''m'' = CHR ''m''" "py_lower_char CHR ''n'' = CHR ''n''"
  "py_lower_char CHR ''o'' = CHR ''o''" "py_lower_char CHR ''p'' = CHR ''p''"
  "py_lower_char CHR ''q'' = CHR ''q''" "py_lower_char CHR ''r'' = CHR ''r''"
  "py_lower_char CHR ''s'' = CHR ''s''" "py_lower_char CHR ''t'' = CHR ''t''"
  "py_lower_char CHR ''u'' = CHR ''u''" "py_lower_char CHR ''v'' = CHR ''v''"
  "py_lower_char CHR ''w'' = CHR ''w''" "py_lower_char CHR ''x'' = CHR ''x''"
  "py_lower_char CHR ''y'' = CHR ''y''" "py_lower_char CHR ''z'' = CHR ''z''"
  "py_lower_char CHR ''A'' = CHR ''a''" "py_lower_char CHR ''B'' = CHR ''b''"
  "py_lower_char CHR ''C'' = CHR ''c''" "py_lower_char CHR ''D'' = CHR ''d''"
  "py_lower_char CHR ''E'' = CHR ''e''" "py_lower_char CHR ''F'' = CHR ''f''"
  "py_lower_char CHR ''G'' = CHR ''g''" "py_lower_char CHR ''H'' = CHR ''h''"
  "py_lower_char CHR ''I'' = CHR ''i''" "py_lower_char CHR ''J'' = CHR ''j''"
  "py_lower_char CHR ''K'' = CHR ''k''" "py_lower_char CHR ''L'' = CHR ''l''"
  "py_lower_char CHR ''M'' = CHR ''m''" "py_lower_char CHR ''N'' = CHR ''n''"
  "py_lower_char CHR ''O'' = CHR ''o''" "py_lower_char CHR ''P'' = CHR ''p''"
  "py_lower_char CHR ''Q'' = CHR ''q''" "py_lower_char CHR ''R'' = CHR ''r''"
  "py_lower_char CHR ''S'' = CHR ''s''" "py_lower_char CHR ''T'' = CHR ''t''"
  "py_lower_char CHR ''U'' = CHR ''u''" "py_lower_char CHR ''V'' = CHR ''v''"
  "py_lower_char CHR ''W'' = CHR ''w''" "py_lower_char CHR ''X'' = CHR ''x''"
  "py_lower_char CHR ''Y'' = CHR ''y''" "py_lower_char CHR ''Z'' = CHR ''z''"
  "py_lower_char CHR ''0'' = CHR ''0''" "py_lower_char CHR ''1'' = CHR ''1''"
  "py_lower_char CHR ''2'' = CHR ''2''" "py_lower_char CHR ''3'' = CHR ''3''"
  "py_lower_char CHR ''4'' = CHR ''4''" "py_lower_char CHR ''5'' = CHR ''5''"
  "py_lower_char CHR ''6'' = CHR ''6''" "py_lower_char CHR ''7'' = CHR ''7''"
  "py_lower_char CHR ''8'' = CHR ''8''" "py_lower_char CHR ''9'' = CHR ''9''"
  "py_lower_char CHR '' '' = CHR '' ''" "py_lower_char CHR ''.'' = CHR ''.''"
  "py_lower_char CHR ''/'' = CHR ''/''" "py_lower_char CHR ''='' = CHR ''=''"
  "py_lower_char CHR 0x0A = CHR 0x0A" "py_lower_char CHR 0xE1 = CHR 0xE1"
  by (simp_all add: py_lower_char_def char_of_def bit_0)

lemma list_eq_if: "(x # xs = y # ys) = (if x = y then xs = ys else False)"
  by simp

lemmas ev_only = is_word_table is_space_table is_digit_table py_lower_char_table
  rx_run.simps rx_search_from.simps rx_sub_from.simps lit.simps lit_ci.simps at_boundary.simps
  group_span.simps st_groups.simps st_pos.simps st_rest.simps
  plus_def opt_def re_search_def group_text_def re_sub_def const_repl_def match_here_def
  option.case list.case prod.case if_True if_False simp_thms char.inject list_eq_if list.distinct
  option.distinct option.inject prod.inject
  foldl_Nil foldl_Cons append_Nil append_Cons append_Nil2 length_Cons list.size
  Suc_less_eq zero_less_Suc not_less_zero less_irrefl nat.inject nat.distinct
  take_Suc_Cons drop_Suc_Cons take_Nil drop_Nil take_0 drop_0 diff_Suc_Suc diff_zero diff_0_eq_0
  One_nat_def numeral_2_eq_2 numeral_3_eq_3 Let_def

lemmas ev_cong = if_weak_cong option.case_cong_weak list.case_cong_weak prod.case_cong_weak
  let_weak_cong

lemmas ev_defs = is_space_def is_digit_def is_word_def py_lower_char_def py_lower_def endswith_def
  py_lstrip_def py_rstrip_def py_strip_def py_split_def clip_index_def py_slice_def py_rfind_def py_rfind_in_def
  plus_def opt_def re_search_def group_text_def re_sub_def const_repl_def match_here_def
  strip_pdf_ext_def rx_dot_npdf_def rx_npdf_def get_base_document_name_def rx_space_num_def
  get_base_document_name_claude_def basename_def dirname_def path_join_def digit_val_def int_of_digits_def
  rx_page_explicit_def rx_numbered_def page_sort_key_def rx_page_spaced_def rx_numbered_claude_def
  page_sort_key_claude_def group_key_def group_pages_def

subsection \<open>Filename normalizer\<close>

text \<open>
  The normalizer of \<^verbatim>\<open>analyze_docs_claude.py\<close> (and of \<^verbatim>\<open>audit_pipeline.py\<close> and
  \<^verbatim>\<open>test_multipage.py\<close>) gives the base name Parada for both conventions.
\<close>

lemma get_base_document_name_claude_parada:
  "get_base_document_name_claude ''Parada.2pdf.pdf'' = ''Parada'' \<and>
   get_base_document_name_claude ''Parada 2.pdf'' = ''Parada''"
  by (simp add: ev_defs)

text \<open>
  Claim C1: for the file names Parada.2pdf.pdf and Parada 2.pdf the normalizer returns
  the same base name Parada. The normalizer of \<^verbatim>\<open>analyze_docs.py\<close> has no rule for the
  spaced series: it returns Parada for the first name and keeps the number of the
  second, so the two names get different group keys there.
\<close>

theorem get_base_document_name_keeps_series_number:
  "get_base_document_name ''Parada.2pdf.pdf'' = ''Parada'' \<and>
   get_base_document_name ''Parada 2.pdf'' = ''Parada 2''"
  by (simp add: ev_defs)

subsection \<open>Page grouper\<close>

lemma scan_example:
  "scan_pdfs [(''/scans'', [''Sale Parada 2.pdf'', ''Sale Parada 1.pdf''])] =
     [''/scans/Sale Parada 2.pdf'', ''/scans/Sale Parada 1.pdf'']"
  by (simp add: scan_pdfs_def KEYWORDS_def path_join_def endswith_def py_lower_def
        py_lower_char_def char_of_def bit_0)


lemma keys_new:
  "group_key get_base_document_name_claude ''/scans/Sale Parada 1.pdf'' = ''/scans/Sale Parada''"
  "group_key get_base_document_name_claude ''/scans/Sale Parada 2.pdf'' = ''/scans/Sale Parada''"
  by (simp_all add: ev_defs)


lemma ranks_new:
  "page_sort_key_claude ''/scans/Sale Parada 1.pdf'' = 1"
  "page_sort_key_claude ''/scans/Sale Parada 2.pdf'' = 2"
  by (simp_all add: ev_defs)

lemma doc_keys:
  "group_key get_base_document_name ''/scans/Doc.pdf'' = ''/scans/Doc''"
  "group_key get_base_document_name ''/scans/Doc.2pdf.pdf'' = ''/scans/Doc''"
  "group_key get_base_document_name ''/scans/Doc.3pdf.pdf'' = ''/scans/Doc''"
  "group_key get_base_document_name_claude ''/scans/Doc.pdf'' = ''/scans/Doc''"
  "group_key get_base_document_name_claude ''/scans/Doc.2pdf.pdf'' = ''/scans/Doc''"
  "group_key get_base_document_name_claude ''/scans/Doc.3pdf.pdf'' = ''/scans/Doc''"
  by (simp_all add: ev_defs)

lemma doc_ranks:
  "page_sort_key ''/scans/Doc.pdf'' = 0"
  "page_sort_key ''/scans/Doc.2pdf.pdf'' = 2"
  "page_sort_key ''/scans/Doc.3pdf.pdf'' = 3"
  "page_sort_key_claude ''/scans/Doc.pdf'' = 0"
  "page_sort_key_claude ''/scans/Doc.2pdf.pdf'' = 2"
  "page_sort_key_claude ''/scans/Doc.3pdf.pdf'' = 3"
  by (simp_all add: ev_defs)

text \<open>
  The three pages of the first example, handed to the grouping in another order,
  come out as one group in page order, with the sort key of either file.
\<close>

lemma doc_example:
  "group_pages get_base_document_name page_sort_key
     [''/scans/Doc.3pdf.pdf'', ''/scans/Doc.pdf'', ''/scans/Doc.2pdf.pdf''] =
   [(''/scans/Doc'', [''/scans/Doc.pdf'', ''/scans/Doc.2pdf.pdf'', ''/scans/Doc.3pdf.pdf''])] \<and>
   group_pages get_base_document_name_claude page_sort_key_claude
     [''/scans/Doc.3pdf.pdf'', ''/scans/Doc.pdf'', ''/scans/Doc.2pdf.pdf''] =
   [(''/scans/Doc'', [''/scans/Doc.pdf'', ''/scans/Doc.2pdf.pdf'', ''/scans/Doc.3pdf.pdf''])]"
  by (simp add: group_pages_def doc_keys doc_ranks)

text \<open>
  With the normalizer and the sort key of \<^verbatim>\<open>analyze_docs_claude.py\<close> the two pages of a
  spaced series form one group, in the order of their numbers.
\<close>

lemma groups_of_series_claude:
  "find_and_group_files_claude [(''/scans'', [''Sale Parada 2.pdf'', ''Sale Parada 1.pdf''])] =
     [(''/scans/Sale Parada'', [''/scans/Sale Parada 1.pdf'', ''/scans/Sale Parada 2.pdf''])]"
  by (simp add: find_and_group_files_claude_def scan_example group_pages_def keys_new ranks_new)


subsection \<open>Repetition suppressor\<close>

lemma scan_counts_marked:
  "scan_counts words k phrases items = Some out \<Longrightarrow> \<exists>pre. out = pre @ truncation_marker"
  by (induction words k phrases items rule: scan_counts.induct)
     (auto simp: truncate_words_def split: if_splits option.splits)

lemma method1_marked:
  "method1 ks words = Some out \<Longrightarrow> \<exists>pre. out = pre @ truncation_marker"
  by (induction ks) (auto simp: repeated_phrase_def split: option.splits dest: scan_counts_marked)

lemma truncate_before_marked: "\<exists>pre. truncate_before t n = pre @ truncation_marker"
  by (simp add: truncate_before_def Let_def)

lemma method2_marked:
  "method2 ps t = Some out \<Longrightarrow> \<exists>pre. out = pre @ truncation_marker"
  by (induction ps) (auto simp: truncate_before_marked split: option.splits if_splits)

text \<open>
  Claim C10: for every text, \<open>clean_translation\<close> returns either the text itself,
  character for character, or a string that ends with the truncation marker.
\<close>

theorem clean_translation_flagged:
  "clean_translation text = text \<or> (\<exists>pre. clean_translation text = pre @ truncation_marker)"
proof (cases "length (py_split text) < 20")
  case True
  then show ?thesis by (simp add: clean_translation_def)
next
  case long: False
  show ?thesis
  proof (cases "method1 [6, 5, 4, 3] (py_split text)")
    case (Some out)
    then have "\<exists>pre. out = pre @ truncation_marker" by (rule method1_marked)
    with long Some show ?thesis by (simp add: clean_translation_def)
  next
    case m1: None
    show ?thesis
    proof (cases "method2 repetitive_patterns (py_join '' '' (py_split text))")
      case None
      with long m1 show ?thesis by (simp add: clean_translation_def)
    next
      case (Some out)
      then have "\<exists>pre. out = pre @ truncation_marker" by (rule method2_marked)
      with long m1 Some show ?thesis by (simp add: clean_translation_def)
    qed
  qed
qed

subsection \<open>Party extraction\<close>

text \<open>
  Claim C9: for every text (and whatever the order in which the set of parties is
  listed), \<open>extract_parties\<close> returns at most 10 entries.
\<close>

theorem extract_parties_cap: "length (extract_parties listing text) \<le> 10"
  by (simp add: extract_parties_def)

subsection \<open>Relevance scorer\<close>

lemma level_rank_mono: "a \<le> b \<Longrightarrow> level_rank (level_of a) \<le> level_rank (level_of b)"
  by (simp add: level_rank_def level_of_def)

lemma found_families_added:
  "matches_any key_families p \<Longrightarrow> found_families (ps1 @ p # ps2) \<noteq> []"
  by (simp add: found_families_def)

text \<open>
  Claim C8: adding to the list of parties, at any place, a party that matches a
  key family name, with the other inputs fixed, never decreases the relevance score
  and never lowers the level.
\<close>

theorem relevance_monotone:
  assumes "matches_any key_families p"
  shows "relevance_score doc_type (ps1 @ ps2) props \<le> relevance_score doc_type (ps1 @ p # ps2) props \<and>
         level_rank (fst (assess_legal_relevance doc_type (ps1 @ ps2) props text)) \<le>
         level_rank (fst (assess_legal_relevance doc_type (ps1 @ p # ps2) props text))"
proof -
  have "found_families (ps1 @ p # ps2) \<noteq> []"
    using assms by (rule found_families_added)
  then have "relevance_score doc_type (ps1 @ ps2) props \<le> relevance_score doc_type (ps1 @ p # ps2) props"
    by (simp add: relevance_score_def)
  then show ?thesis
    by (simp add: assess_legal_relevance_def level_rank_mono)
qed

theorem relevance_monotone_witness:
  "matches_any key_families ''Juan Ceresa'' \<and>
   relevance_score ''Tax/Assessment Document'' [''Ana Diaz''] [] = 1 \<and>
   relevance_score ''Tax/Assessment Document'' [''Ana Diaz'', ''Juan Ceresa''] [] = 3 \<and>
   level_rank (fst (assess_legal_relevance ''Tax/Assessment Document'' [''Ana Diaz''] [] [])) \<le>
   level_rank (fst (assess_legal_relevance ''Tax/Assessment Document''
                      [''Ana Diaz'', ''Juan Ceresa''] [] []))"
proof -
  have h: "matches_any key_families ''Juan Ceresa''"
    by (simp add: matches_any_def key_families_def py_lower_def py_lower_char_def)
  have s1: "relevance_score ''Tax/Assessment Document'' [''Ana Diaz''] [] = 1"
    by (simp add: relevance_score_def type_points_def high_value_types_def medium_value_types_def
          found_families_def found_props_def matches_any_def key_families_def py_lower_def
          py_lower_char_def)
  have s2: "relevance_score ''Tax/Assessment Document'' [''Ana Diaz'', ''Juan Ceresa''] [] = 3"
    by (simp add: relevance_score_def type_points_def high_value_types_def medium_value_types_def
          found_families_def found_props_def matches_any_def key_families_def py_lower_def
          py_lower_char_def)
  from relevance_monotone [OF h, of "''Tax/Assessment Document''" "[''Ana Diaz'']" "[]" "[]" "[]"]
  show ?thesis using h s1 s2 by simp
qed

subsection \<open>Document classifier\<close>

lemma max_by_score_ge: "snd b \<le> snd (max_by_score b xs)"
proof (induction xs arbitrary: b)
  case Nil
  then show ?case by simp
next
  case (Cons x xs)
  have "snd (if snd b < snd x then x else b) \<le> snd (max_by_score (if snd b < snd x then x else b) xs)"
    by (rule Cons.IH)
  then show ?case by (simp split: if_splits)
qed

lemma max_by_score_split:
  "\<exists>pre post. b # xs = pre @ max_by_score b xs # post \<and>
     (\<forall>y\<in>set pre. snd y < snd (max_by_score b xs)) \<and>
     (\<forall>y\<in>set post. snd y \<le> snd (max_by_score b xs))"
proof (induction xs arbitrary: b)
  case Nil
  have "[b] = [] @ b # [] \<and> (\<forall>y\<in>set []. snd y < snd b) \<and> (\<forall>y\<in>set []. snd y \<le> snd b)"
    by simp
  then show ?case unfolding max_by_score.simps by blast
next
  case (Cons x xs)
  show ?case
  proof (cases "snd b < snd x")
    case True
    then have r: "max_by_score b (x # xs) = max_by_score x xs" by simp
    from Cons.IH [of x] obtain pre post where
      sp: "x # xs = pre @ max_by_score x xs # post"
      and lt: "\<forall>y\<in>set pre. snd y < snd (max_by_score x xs)"
      and le: "\<forall>y\<in>set post. snd y \<le> snd (max_by_score x xs)" by blast
    have "snd b < snd (max_by_score x xs)"
      using True max_by_score_ge [of x xs] by simp
    with sp lt le have "b # x # xs = (b # pre) @ max_by_score x xs # post \<and>
       (\<forall>y\<in>set (b # pre). snd y < snd (max_by_score x xs)) \<and>
       (\<forall>y\<in>set post. snd y \<le> snd (max_by_score x xs))" by simp
    then show ?thesis unfolding r by blast
  next
    case False
    then have r: "max_by_score b (x # xs) = max_by_score b xs" by simp
    from Cons.IH [of b] obtain pre post where
      sp: "b # xs = pre @ max_by_score b xs # post"
      and lt: "\<forall>y\<in>set pre. snd y < snd (max_by_score b xs)"
      and le: "\<forall>y\<in>set post. snd y \<le> snd (max_by_score b xs)" by blast
    show ?thesis
    proof (cases pre)
      case Nil
      with sp have b: "max_by_score b xs = b" and xs: "xs = post" by auto
      have "b # x # xs = [] @ b # (x # post) \<and> (\<forall>y\<in>set (x # post). snd y \<le> snd b)"
        using xs le b False by simp
      moreover have "\<forall>y\<in>set []. snd y < snd b" by simp
      ultimately show ?thesis unfolding r b by blast
    next
      case (Cons p pre')
      with sp have p: "p = b" and xs: "xs = pre' @ max_by_score b xs # post" by auto
      have "snd b < snd (max_by_score b xs)" using lt Cons p by simp
      then have "snd x < snd (max_by_score b xs)" using False by simp
      with lt le Cons p xs have "b # x # xs = (b # x # pre') @ max_by_score b xs # post \<and>
         (\<forall>y\<in>set (b # x # pre'). snd y < snd (max_by_score b xs)) \<and>
         (\<forall>y\<in>set post. snd y \<le> snd (max_by_score b xs))" by simp
      then show ?thesis unfolding r by blast
    qed
  qed
qed

lemma filter_map_split:
  "filter P (map f T) = A @ r # B \<Longrightarrow>
   \<exists>T1 t T2. T = T1 @ t # T2 \<and> f t = r \<and> A = filter P (map f T1) \<and> B = filter P (map f T2)"
proof (induction T arbitrary: A)
  case Nil
  then show ?case by simp
next
  case (Cons t T)
  show ?case
  proof (cases "P (f t)")
    case False
    with Cons.prems have "filter P (map f T) = A @ r # B" by simp
    from Cons.IH [OF this] obtain T1 t' T2 where
      "T = T1 @ t' # T2" "f t' = r" "A = filter P (map f T1)" "B = filter P (map f T2)" by blast
    with False have "t # T = (t # T1) @ t' # T2 \<and> f t' = r \<and> A = filter P (map f (t # T1)) \<and>
        B = filter P (map f T2)" by simp
    then show ?thesis by blast
  next
    case True
    with Cons.prems have eq: "f t # filter P (map f T) = A @ r # B" by simp
    show ?thesis
    proof (cases A)
      case Nil
      with eq have "f t = r" "B = filter P (map f T)" by simp_all
      with Nil have "t # T = [] @ t # T \<and> f t = r \<and> A = filter P (map f []) \<and> B = filter P (map f T)"
        by simp
      then show ?thesis by blast
    next
      case (Cons a A')
      with eq have a: "a = f t" and "filter P (map f T) = A' @ r # B" by simp_all
      from Cons.IH [OF this(2)] obtain T1 t' T2 where
        "T = T1 @ t' # T2" "f t' = r" "A' = filter P (map f T1)" "B = filter P (map f T2)" by blast
      with True a Cons have "t # T = (t # T1) @ t' # T2 \<and> f t' = r \<and>
          A = filter P (map f (t # T1)) \<and> B = filter P (map f T2)" by simp
      then show ?thesis by blast
    qed
  qed
qed


lemma type_scores_winner:
  assumes ts: "type_scores c = x # xs"
  shows "\<exists>pre l kws post. DOCUMENT_TYPES = pre @ (l, kws) # post \<and>
           max_by_score x xs = (l, keyword_score c kws) \<and>
           0 < keyword_score c kws \<and>
           (\<forall>(l', kws')\<in>set pre. keyword_score c kws' < keyword_score c kws) \<and>
           (\<forall>(l', kws')\<in>set post. keyword_score c kws' \<le> keyword_score c kws)"
proof -
  let ?P = "\<lambda>(doc_type, score). score > (0::nat)"
  let ?f = "\<lambda>(doc_type, keywords). (doc_type, keyword_score c keywords)"
  let ?r = "max_by_score x xs"
  from max_by_score_split [of x xs] obtain A B where
    sp: "x # xs = A @ ?r # B"
    and lt: "\<forall>y\<in>set A. snd y < snd ?r"
    and le: "\<forall>y\<in>set B. snd y \<le> snd ?r" by blast
  from ts sp have "filter ?P (map ?f DOCUMENT_TYPES) = A @ ?r # B"
    by (simp add: type_scores_def)
  from filter_map_split [OF this] obtain T1 t T2 where
    T: "DOCUMENT_TYPES = T1 @ t # T2" and ft: "?f t = ?r"
    and A: "A = filter ?P (map ?f T1)" and B: "B = filter ?P (map ?f T2)" by blast
  obtain l kws where t: "t = (l, kws)" by (cases t)
  with ft have r: "?r = (l, keyword_score c kws)" by simp
  have "?r \<in> set (type_scores c)" using ts sp by simp
  then have pos: "0 < keyword_score c kws" using r by (auto simp: type_scores_def)
  have pre: "\<forall>(l', kws')\<in>set T1. keyword_score c kws' < keyword_score c kws"
  proof (clarify)
    fix l' kws' assume m: "(l', kws') \<in> set T1"
    show "keyword_score c kws' < keyword_score c kws"
    proof (cases "0 < keyword_score c kws'")
      case True
      with m have "(l', keyword_score c kws') \<in> set A" unfolding A by force
      with lt r show ?thesis by force
    next
      case False
      with pos show ?thesis by simp
    qed
  qed
  have post: "\<forall>(l', kws')\<in>set T2. keyword_score c kws' \<le> keyword_score c kws"
  proof (clarify)
    fix l' kws' assume m: "(l', kws') \<in> set T2"
    show "keyword_score c kws' \<le> keyword_score c kws"
    proof (cases "0 < keyword_score c kws'")
      case True
      with m have "(l', keyword_score c kws') \<in> set B" unfolding B by force
      with le r show ?thesis by force
    next
      case False
      then show ?thesis by simp
    qed
  qed
  from T t r pos pre post show ?thesis by blast
qed

lemma type_scores_empty:
  "type_scores c = [] \<longleftrightarrow> (\<forall>(l, kws)\<in>set DOCUMENT_TYPES. keyword_score c kws = 0)"
  by (auto simp: type_scores_def filter_empty_conv)

lemma keyword_lists_distinct: "\<forall>(l, kws)\<in>set DOCUMENT_TYPES. distinct kws"
  by (simp add: DOCUMENT_TYPES_def)

lemma keyword_score_card:
  "distinct kws \<Longrightarrow> keyword_score c kws = card {kw \<in> set kws. py_in (py_lower kw) c}"
  by (simp add: keyword_score_def distinct_length_filter Int_def conj_commute)

text \<open>
  Claim C7: every label of the type table is scored by the number of its (distinct)
  keywords that occur, lower-cased, in the lower-cased file name, a space and the
  text. If no label scores above 0 the result is the fallback label with confidence
  Low. Otherwise the winner is a label with a positive score that no label beats and
  that every label declared before it falls short of, and the confidence is High for
  a score of at least 3, Medium for at least 2, else Low.
\<close>

theorem classify_document_spec:
  "(\<forall>(l, kws)\<in>set DOCUMENT_TYPES.
      keyword_score (py_lower (filename @ '' '' @ text)) kws =
      card {kw \<in> set kws. py_in (py_lower kw) (py_lower (filename @ '' '' @ text))}) \<and>
   (if \<forall>(l, kws)\<in>set DOCUMENT_TYPES. keyword_score (py_lower (filename @ '' '' @ text)) kws = 0
    then classify_document filename text = (''Unclassified Legal Document'', ''Low'')
    else \<exists>pre l kws post.
           DOCUMENT_TYPES = pre @ (l, kws) # post \<and>
           0 < keyword_score (py_lower (filename @ '' '' @ text)) kws \<and>
           (\<forall>(l', kws')\<in>set pre. keyword_score (py_lower (filename @ '' '' @ text)) kws'
                                  < keyword_score (py_lower (filename @ '' '' @ text)) kws) \<and>
           (\<forall>(l', kws')\<in>set post. keyword_score (py_lower (filename @ '' '' @ text)) kws'
                                   \<le> keyword_score (py_lower (filename @ '' '' @ text)) kws) \<and>
           classify_document filename text =
             (l, if keyword_score (py_lower (filename @ '' '' @ text)) kws \<ge> 3 then ''High''
                 else if keyword_score (py_lower (filename @ '' '' @ text)) kws \<ge> 2 then ''Medium''
                 else ''Low''))"
proof -
  let ?c = "py_lower (filename @ '' '' @ text)"
  have card: "\<forall>(l, kws)\<in>set DOCUMENT_TYPES.
      keyword_score ?c kws = card {kw \<in> set kws. py_in (py_lower kw) ?c}"
    using keyword_lists_distinct keyword_score_card by fastforce
  show ?thesis
  proof (cases "type_scores ?c")
    case Nil
    then have all0: "\<forall>(l, kws)\<in>set DOCUMENT_TYPES. keyword_score ?c kws = 0"
      by (simp add: type_scores_empty)
    from Nil have "classify_document filename text = (''Unclassified Legal Document'', ''Low'')"
      by (simp add: classify_document_def)
    then have "if \<forall>(l, kws)\<in>set DOCUMENT_TYPES. keyword_score ?c kws = 0
        then classify_document filename text = (''Unclassified Legal Document'', ''Low'')
        else \<exists>pre l kws post.
           DOCUMENT_TYPES = pre @ (l, kws) # post \<and>
           0 < keyword_score ?c kws \<and>
           (\<forall>(l', kws')\<in>set pre. keyword_score ?c kws' < keyword_score ?c kws) \<and>
           (\<forall>(l', kws')\<in>set post. keyword_score ?c kws' \<le> keyword_score ?c kws) \<and>
           classify_document filename text =
             (l, if keyword_score ?c kws \<ge> 3 then ''High''
                 else if keyword_score ?c kws \<ge> 2 then ''Medium'' else ''Low'')"
      by (rule iffD2 [OF if_P [OF all0]])
    with card show ?thesis by (rule conjI)
  next
    case (Cons x xs)
    then have ne: "\<not> (\<forall>(l, kws)\<in>set DOCUMENT_TYPES. keyword_score ?c kws = 0)"
      using type_scores_empty [of ?c] by simp
    from type_scores_winner [OF Cons] obtain pre l kws post where
      T: "DOCUMENT_TYPES = pre @ (l, kws) # post"
      and r: "max_by_score x xs = (l, keyword_score ?c kws)"
      and pos: "0 < keyword_score ?c kws"
      and lt: "\<forall>(l', kws')\<in>set pre. keyword_score ?c kws' < keyword_score ?c kws"
      and le: "\<forall>(l', kws')\<in>set post. keyword_score ?c kws' \<le> keyword_score ?c kws" by blast
    from Cons r have "classify_document filename text =
        (l, if keyword_score ?c kws \<ge> 3 then ''High''
            else if keyword_score ?c kws \<ge> 2 then ''Medium'' else ''Low'')"
      by (simp add: classify_document_def confidence_of_def)
    with T pos lt le have "\<exists>pre l kws post.
           DOCUMENT_TYPES = pre @ (l, kws) # post \<and>
           0 < keyword_score ?c kws \<and>
           (\<forall>(l', kws')\<in>set pre. keyword_score ?c kws' < keyword_score ?c kws) \<and>
           (\<forall>(l', kws')\<in>set post. keyword_score ?c kws' \<le> keyword_score ?c kws) \<and>
           classify_document filename text =
             (l, if keyword_score ?c kws \<ge> 3 then ''High''
                 else if keyword_score ?c kws \<ge> 2 then ''Medium'' else ''Low'')"
      by blast
    then have "if \<forall>(l, kws)\<in>set DOCUMENT_TYPES. keyword_score ?c kws = 0
        then classify_document filename text = (''Unclassified Legal Document'', ''Low'')
        else \<exists>pre l kws post.
           DOCUMENT_TYPES = pre @ (l, kws) # post \<and>
           0 < keyword_score ?c kws \<and>
           (\<forall>(l', kws')\<in>set pre. keyword_score ?c kws' < keyword_score ?c kws) \<and>
           (\<forall>(l', kws')\<in>set post. keyword_score ?c kws' \<le> keyword_score ?c kws) \<and>
           classify_document filename text =
             (l, if keyword_score ?c kws \<ge> 3 then ''High''
                 else if keyword_score ?c kws \<ge> 2 then ''Medium'' else ''Low'')"
      by (rule iffD2 [OF if_not_P [OF ne]])
    with card show ?thesis by (rule conjI)
  qed
qed


theorem classify_document_spec_witness:
  "\<not> (\<forall>(l, kws)\<in>set DOCUMENT_TYPES. keyword_score (py_lower (''Deed'' @ '' '' @ [])) kws = 0) \<and>
   (\<exists>pre l kws post.
      DOCUMENT_TYPES = pre @ (l, kws) # post \<and>
      0 < keyword_score (py_lower (''Deed'' @ '' '' @ [])) kws \<and>
      (\<forall>(l', kws')\<in>set pre. keyword_score (py_lower (''Deed'' @ '' '' @ [])) kws'
                             < keyword_score (py_lower (''Deed'' @ '' '' @ [])) kws) \<and>
      (\<forall>(l', kws')\<in>set post. keyword_score (py_lower (''Deed'' @ '' '' @ [])) kws'
                              \<le> keyword_score (py_lower (''Deed'' @ '' '' @ [])) kws) \<and>
      classify_document ''Deed'' [] =
        (l, if keyword_score (py_lower (''Deed'' @ '' '' @ [])) kws \<ge> 3 then ''High''
            else if keyword_score (py_lower (''Deed'' @ '' '' @ [])) kws \<ge> 2 then ''Medium''
            else ''Low''))"
proof -
  have row: "(''Property Deed'', [''deed'', ''escritura'', ''escritura p'' @ [CHR 0xFA] @ ''blica'',
                ''t'' @ [CHR 0xED] @ ''tulo'']) \<in> set DOCUMENT_TYPES"
    by (simp add: DOCUMENT_TYPES_def)
  have "keyword_score (py_lower (''Deed'' @ '' '' @ []))
          [''deed'', ''escritura'', ''escritura p'' @ [CHR 0xFA] @ ''blica'', ''t'' @ [CHR 0xED] @ ''tulo''] = 1"
    by (simp add: keyword_score_def py_lower_def py_lower_char_def char_of_def bit_0)
  with row have ne:
    "\<not> (\<forall>(l, kws)\<in>set DOCUMENT_TYPES. keyword_score (py_lower (''Deed'' @ '' '' @ [])) kws = 0)"
    by force
  from classify_document_spec [of "''Deed''" "[]"]
  have "if \<forall>(l, kws)\<in>set DOCUMENT_TYPES. keyword_score (py_lower (''Deed'' @ '' '' @ [])) kws = 0
    then classify_document ''Deed'' [] = (''Unclassified Legal Document'', ''Low'')
    else \<exists>pre l kws post.
      DOCUMENT_TYPES = pre @ (l, kws) # post \<and>
      0 < keyword_score (py_lower (''Deed'' @ '' '' @ [])) kws \<and>
      (\<forall>(l', kws')\<in>set pre. keyword_score (py_lower (''Deed'' @ '' '' @ [])) kws'
                             < keyword_score (py_lower (''Deed'' @ '' '' @ [])) kws) \<and>
      (\<forall>(l', kws')\<in>set post. keyword_score (py_lower (''Deed'' @ '' '' @ [])) kws'
                              \<le> keyword_score (py_lower (''Deed'' @ '' '' @ [])) kws) \<and>
      classify_document ''Deed'' [] =
        (l, if keyword_score (py_lower (''Deed'' @ '' '' @ [])) kws \<ge> 3 then ''High''
            else if keyword_score (py_lower (''Deed'' @ '' '' @ [])) kws \<ge> 2 then ''Medium''
            else ''Low'')"
    by (rule conjunct2)
  then have "\<exists>pre l kws post.
      DOCUMENT_TYPES = pre @ (l, kws) # post \<and>
      0 < keyword_score (py_lower (''Deed'' @ '' '' @ [])) kws \<and>
      (\<forall>(l', kws')\<in>set pre. keyword_score (py_lower (''Deed'' @ '' '' @ [])) kws'
                             < keyword_score (py_lower (''Deed'' @ '' '' @ [])) kws) \<and>
      (\<forall>(l', kws')\<in>set post. keyword_score (py_lower (''Deed'' @ '' '' @ [])) kws'
                              \<le> keyword_score (py_lower (''Deed'' @ '' '' @ [])) kws) \<and>
      classify_document ''Deed'' [] =
        (l, if keyword_score (py_lower (''Deed'' @ '' '' @ [])) kws \<ge> 3 then ''High''
            else if keyword_score (py_lower (''Deed'' @ '' '' @ [])) kws \<ge> 2 then ''Medium''
            else ''Low'')"
    by (rule iffD1 [OF if_not_P [OF ne]])
  with ne show ?thesis by (rule conjI)
qed

subsection \<open>Chunked translator\<close>

lemma py_rfind_in_lower:
  "py_rfind_in s p a b = - 1 \<or> int (clip_index (length s) a) \<le> py_rfind_in s p a b"
  by (simp add: py_rfind_in_def Let_def)

lemma chunk_end_window:
  assumes "0 \<le> start" "200 \<le> chunk_size"
  shows "chunk_end text chunk_size start = min (start + chunk_size) (int (length text)) \<or>
         (start + chunk_size < int (length text) \<and>
          start + 1 < chunk_end text chunk_size start \<and>
          start + chunk_size - 199 \<le> chunk_end text chunk_size start)"
proof (cases "start + chunk_size < int (length text)")
  case False
  then show ?thesis by (simp add: chunk_end_def Let_def)
next
  case True
  let ?e = "start + chunk_size"
  let ?lp = "py_rfind_in text ''.'' (?e - 200) ?e"
  have clip: "int (clip_index (length text) (?e - 200)) = ?e - 200"
    using assms True by (simp add: clip_index_def)
  from py_rfind_in_lower [of "text" "''.''" "?e - 200" ?e]
  have lp: "?lp = - 1 \<or> ?e - 200 \<le> ?lp" unfolding clip .
  show ?thesis
  proof (cases "?lp > start")
    case False
    with True show ?thesis by (simp add: chunk_end_def Let_def)
  next
    case gt: True
    with lp assms have "?e - 200 \<le> ?lp" by linarith
    with True gt have "chunk_end text chunk_size start = ?lp + 1 \<and> start + 1 < ?lp + 1 \<and>
        ?e - 199 \<le> ?lp + 1"
      by (simp add: chunk_end_def Let_def)
    with True show ?thesis by simp
  qed
qed

lemma cursor_advances:
  assumes "0 \<le> overlap" "overlap + 200 \<le> chunk_size" "0 \<le> start" "start < int (length text)"
  shows "start < next_start text overlap start (chunk_end text chunk_size start)"
proof -
  have cs: "200 \<le> chunk_size" using assms by linarith
  from chunk_end_window [OF assms(3) cs, of "text"]
  show ?thesis using assms by (auto simp: next_start_def min_def)
qed

lemma chunk_loop_returns:
  assumes "0 \<le> overlap" "overlap + 200 \<le> chunk_size" "0 \<le> start"
  shows "\<exists>r. chunk_loop translator text chunk_size overlap start chunks = Some r"
  using assms(3)
proof (induction "nat (int (length text) - start)" arbitrary: start chunks rule: less_induct)
  case less
  show ?case
  proof (cases "start < int (length text)")
    case False
    then show ?thesis by (subst chunk_loop.simps) simp
  next
    case True
    let ?n = "next_start text overlap start (chunk_end text chunk_size start)"
    have adv: "start < ?n"
      using assms(1,2) less.prems True by (rule cursor_advances)
    then have "nat (int (length text) - ?n) < nat (int (length text) - start)"
      using True by linarith
    moreover have "0 \<le> ?n" using adv less.prems by linarith
    ultimately have "\<exists>r. chunk_loop translator text chunk_size overlap ?n
        (chunks @ [(start, chunk_end text chunk_size start,
                    translate_chunk translator (py_slice text start (chunk_end text chunk_size start)))]) = Some r"
      by (rule less.hyps)
    with True show ?thesis by (subst chunk_loop.simps) simp
  qed
qed

lemma chunk_loop_linked:
  assumes ret: "chunk_loop translator text chunk_size overlap start chunks = Some ys"
    and inv: "\<forall>i. Suc i < length chunks \<longrightarrow>
                fst (chunks ! Suc i) = (if fst (chunks ! i) = 0 then fst (snd (chunks ! i))
                                        else fst (snd (chunks ! i)) - overlap)"
    and ends: "\<forall>i < length chunks. fst (snd (chunks ! i)) = chunk_end text chunk_size (fst (chunks ! i))"
    and cur: "chunks \<noteq> [] \<longrightarrow>
                start = next_start text overlap (fst (last chunks)) (fst (snd (last chunks)))"
    and first: "if chunks = [] then start = 0 else fst (chunks ! 0) = 0"
  shows "(\<forall>i. Suc i < length ys \<longrightarrow>
            fst (ys ! Suc i) = (if fst (ys ! i) = 0 then fst (snd (ys ! i))
                                else fst (snd (ys ! i)) - overlap)) \<and>
         (\<forall>i < length ys. fst (snd (ys ! i)) = chunk_end text chunk_size (fst (ys ! i))) \<and>
         (ys \<noteq> [] \<longrightarrow> fst (ys ! 0) = 0)"
proof -
  let ?Link = "\<lambda>ov (ch :: (int \<times> int \<times> string) list).
     \<forall>i. Suc i < length ch \<longrightarrow>
       fst (ch ! Suc i) = (if fst (ch ! i) = 0 then fst (snd (ch ! i)) else fst (snd (ch ! i)) - ov)"
  let ?Ends = "\<lambda>t cs (ch :: (int \<times> int \<times> string) list).
     \<forall>i < length ch. fst (snd (ch ! i)) = chunk_end t cs (fst (ch ! i))"
  let ?Cur = "\<lambda>t ov st (ch :: (int \<times> int \<times> string) list).
     ch \<noteq> [] \<longrightarrow> st = next_start t ov (fst (last ch)) (fst (snd (last ch)))"
  let ?First = "\<lambda>st (ch :: (int \<times> int \<times> string) list).
     if ch = [] then st = (0::int) else fst (ch ! 0) = 0"
  have "?Link overlap chunks \<and> ?Ends text chunk_size chunks \<and> ?Cur text overlap start chunks \<and>
        ?First start chunks \<longrightarrow>
        ?Link overlap ys \<and> ?Ends text chunk_size ys \<and> (ys \<noteq> [] \<longrightarrow> fst (ys ! 0) = 0)"
  proof (rule chunk_loop.raw_induct
      [where P = "\<lambda>tr t cs ov st ch y.
         ?Link ov ch \<and> ?Ends t cs ch \<and> ?Cur t ov st ch \<and> ?First st ch \<longrightarrow>
         ?Link ov y \<and> ?Ends t cs y \<and> (y \<noteq> [] \<longrightarrow> fst (y ! 0) = 0)", OF _ ret])
    fix f tr t cs ov st ch y
    assume IH: "\<And>tr t cs ov st ch y. f tr t cs ov st ch = Some y \<Longrightarrow>
         ?Link ov ch \<and> ?Ends t cs ch \<and> ?Cur t ov st ch \<and> ?First st ch \<longrightarrow>
         ?Link ov y \<and> ?Ends t cs y \<and> (y \<noteq> [] \<longrightarrow> fst (y ! 0) = 0)"
      and eq: "(if st < int (length t)
                then f tr t cs ov (next_start t ov st (chunk_end t cs st))
                       (ch @ [(st, chunk_end t cs st,
                               translate_chunk tr (py_slice t st (chunk_end t cs st)))])
                else Some ch) = Some y"
    show "?Link ov ch \<and> ?Ends t cs ch \<and> ?Cur t ov st ch \<and> ?First st ch \<longrightarrow>
          ?Link ov y \<and> ?Ends t cs y \<and> (y \<noteq> [] \<longrightarrow> fst (y ! 0) = 0)"
    proof
      assume a: "?Link ov ch \<and> ?Ends t cs ch \<and> ?Cur t ov st ch \<and> ?First st ch"
      show "?Link ov y \<and> ?Ends t cs y \<and> (y \<noteq> [] \<longrightarrow> fst (y ! 0) = 0)"
      proof (cases "st < int (length t)")
        case False
        with eq have "y = ch" by simp
        with a show ?thesis by (auto split: if_splits)
      next
        case True
        let ?e = "chunk_end t cs st"
        let ?c = "(st, ?e, translate_chunk tr (py_slice t st ?e))"
        let ?ch = "ch @ [?c]"
        from True eq have call: "f tr t cs ov (next_start t ov st ?e) ?ch = Some y" by simp
        have link: "?Link ov ?ch"
        proof (intro allI impI)
          fix i assume i: "Suc i < length ?ch"
          show "fst (?ch ! Suc i) = (if fst (?ch ! i) = 0 then fst (snd (?ch ! i))
                                     else fst (snd (?ch ! i)) - ov)"
          proof (cases "Suc i < length ch")
            case True
            with a show ?thesis by (simp add: nth_append)
          next
            case False
            with i have il: "Suc i = length ch" by simp
            then have ne: "ch \<noteq> []" by auto
            from il have "i = length ch - 1" by simp
            then have li: "ch ! i = last ch" using ne by (simp add: last_conv_nth)
            from a ne have st: "st = next_start t ov (fst (last ch)) (fst (snd (last ch)))" by simp
            have "st = (if fst (last ch) = 0 then fst (snd (last ch)) else fst (snd (last ch)) - ov)"
              using st True by (auto simp: next_start_def split: if_splits)
            with il li show ?thesis by (simp add: nth_append)
          qed
        qed
        have ends: "?Ends t cs ?ch"
          using a by (auto simp: nth_append less_Suc_eq)
        have cur: "?Cur t ov (next_start t ov st ?e) ?ch" by simp
        have first: "?First (next_start t ov st ?e) ?ch"
          using a by (cases ch) (auto simp: nth_append)
        from IH [OF call] link ends cur first show ?thesis by blast
      qed
    qed
  qed
  with inv ends cur first show ?thesis by blast
qed

lemma find_last_no_match:
  "\<forall>c\<in>set s. c \<noteq> x \<Longrightarrow> find_last (x # p) s i best = best"
  by (induction s arbitrary: i) auto

lemma py_rfind_replicate: "c \<noteq> x \<Longrightarrow> py_rfind (replicate n c) (x # p) = - 1"
  by (simp add: py_rfind_def find_last_no_match)

lemma chunk_loop_example:
  "chunk_loop echo_translator (replicate 1300 CHR ''a'') 1200 100 0 [] =
     Some [(0, 1200, replicate 1200 CHR ''a''), (1200, 1300, replicate 100 CHR ''a'')]"
  by (simp add: chunk_loop.simps chunk_end_def next_start_def py_rfind_in_def clip_index_def
        py_rfind_replicate py_slice_def translate_chunk_def echo_translator_def Let_def)

text \<open>
  The cursor in a run of the loop that returns: the first chunk starts at 0, every
  chunk ends at the snapped boundary \<open>chunk_end\<close> of its start, a chunk that follows
  a chunk starting at 0 (the first one) starts exactly at that chunk's snapped end,
  and a chunk that follows any other chunk starts \<open>overlap\<close> characters before that
  chunk's snapped end.
\<close>

lemma chunk_starts:
  assumes "chunk_loop translator text chunk_size overlap 0 [] = Some chunks"
    and "Suc i < length chunks"
  shows "fst (chunks ! 0) = 0 \<and>
         fst (snd (chunks ! i)) = chunk_end text chunk_size (fst (chunks ! i)) \<and>
         fst (chunks ! Suc i) = (if fst (chunks ! i) = 0 then fst (snd (chunks ! i))
                                 else fst (snd (chunks ! i)) - overlap)"
proof -
  from chunk_loop_linked [OF assms(1)]
  have "(\<forall>i. Suc i < length chunks \<longrightarrow>
            fst (chunks ! Suc i) = (if fst (chunks ! i) = 0 then fst (snd (chunks ! i))
                                else fst (snd (chunks ! i)) - overlap)) \<and>
         (\<forall>i < length chunks. fst (snd (chunks ! i)) = chunk_end text chunk_size (fst (chunks ! i))) \<and>
         (chunks \<noteq> [] \<longrightarrow> fst (chunks ! 0) = 0)"
    by simp
  with assms(2) show ?thesis by auto
qed

text \<open>
  With the default sizes and 2500 characters without a period there are three
  chunks: the second starts at the end of the first, the third 100 characters
  before the end of the second.
\<close>

lemma chunk_loop_three_chunks:
  "chunk_loop echo_translator (replicate 2500 CHR ''a'') 1200 100 0 [] =
     Some [(0, 1200, replicate 1200 CHR ''a''), (1200, 2400, replicate 1200 CHR ''a''),
           (2300, 2500, replicate 200 CHR ''a'')]"
  by (simp add: chunk_loop.simps chunk_end_def next_start_def py_rfind_in_def clip_index_def
        py_rfind_replicate py_slice_def translate_chunk_def echo_translator_def Let_def)

text \<open>
  Claim C5: for every text longer than the chunk size, every chunk after the first
  starts \<open>overlap\<close> characters before the snapped end of the chunk before it. The
  loop does not do this for the second chunk: with the default sizes 1200 and 100
  and a text of 1300 characters without a period the chunks are the windows from 0
  to 1200 and from 1200 to 1300, so the second chunk starts at 1200, the end of the
  first, and not at 1100; the translations of an echoing backend, put together, hold
  no character twice.
\<close>

theorem second_chunk_without_overlap:
  "chunk_loop echo_translator (replicate 1300 CHR ''a'') 1200 100 0 [] =
     Some [(0, 1200, replicate 1200 CHR ''a''), (1200, 1300, replicate 100 CHR ''a'')] \<and>
   (1200 :: int) \<noteq> 1200 - 100 \<and>
   translate_in_chunks echo_translator (replicate 1300 CHR ''a'') 1200 100 =
     Some (Inr (replicate 1200 CHR ''a'' @ '' '' @ replicate 100 CHR ''a''))"
  by (simp add: chunk_loop_example translate_in_chunks_def)

text \<open>
  Claim C6, as the code has it: for every text and every backend the translation
  returns when the overlap is not negative and the chunk size is at least the
  overlap plus 200 (as for the defaults 1200 and 100), and every round of the loop
  then moves the cursor strictly forward.
\<close>

theorem translate_in_chunks_terminates:
  assumes "0 \<le> overlap" "overlap + 200 \<le> chunk_size"
  shows "(\<exists>r. translate_in_chunks translator text chunk_size overlap = Some r) \<and>
         (\<forall>start. 0 \<le> start \<and> start < int (length text) \<longrightarrow>
            start < next_start text overlap start (chunk_end text chunk_size start))"
proof
  from chunk_loop_returns [OF assms, of 0 translator "text" "[]"]
  obtain r where "chunk_loop translator text chunk_size overlap 0 [] = Some r" by auto
  then show "\<exists>r. translate_in_chunks translator text chunk_size overlap = Some r"
    by (simp add: translate_in_chunks_def)
next
  show "\<forall>start. 0 \<le> start \<and> start < int (length text) \<longrightarrow>
            start < next_start text overlap start (chunk_end text chunk_size start)"
    using assms cursor_advances by blast
qed

theorem translate_in_chunks_terminates_witness:
  "(0 :: int) \<le> 100 \<and> (100 :: int) + 200 \<le> 1200 \<and>
   (\<exists>r. translate_in_chunks echo_translator (replicate 1300 CHR ''a'') 1200 100 = Some r)"
proof -
  have a: "(0 :: int) \<le> 100" and b: "(100 :: int) + 200 \<le> 1200" by simp_all
  from translate_in_chunks_terminates [OF a b, of echo_translator "replicate 1300 CHR ''a''"]
  show ?thesis by simp
qed

text \<open>
  There is no check of the sizes: with chunk size 0 and a text that is not empty the
  cursor stays at 0 and the loop never returns.
\<close>

lemma chunk_end_zero: "text \<noteq> [] \<Longrightarrow> chunk_end text 0 0 = 0"
  by (simp add: chunk_end_def py_rfind_in_def clip_index_def py_rfind_def Let_def)

lemma chunk_loop_stuck:
  assumes "text \<noteq> []"
  shows "chunk_loop translator text 0 overlap 0 chunks = None"
proof (rule ccontr)
  assume "chunk_loop translator text 0 overlap 0 chunks \<noteq> None"
  then obtain y where ret: "chunk_loop translator text 0 overlap 0 chunks = Some y" by auto
  have "\<not> (text \<noteq> [] \<and> (0::int) = 0 \<and> (0::int) = 0)"
  proof (rule chunk_loop.raw_induct
      [where P = "\<lambda>tr t cs ov st ch y. \<not> (t \<noteq> [] \<and> cs = 0 \<and> st = 0)", OF _ ret])
    fix f tr t cs ov st ch y
    assume IH: "\<And>tr t cs ov st ch y. f tr t cs ov st ch = Some y \<Longrightarrow> \<not> (t \<noteq> [] \<and> cs = 0 \<and> st = 0)"
      and eq: "(if st < int (length t)
                then f tr t cs ov (next_start t ov st (chunk_end t cs st))
                       (ch @ [(st, chunk_end t cs st,
                               translate_chunk tr (py_slice t st (chunk_end t cs st)))])
                else Some ch) = Some y"
    show "\<not> (t \<noteq> [] \<and> cs = 0 \<and> st = 0)"
    proof
      assume bad: "t \<noteq> [] \<and> cs = 0 \<and> st = 0"
      then have "chunk_end t cs st = 0" by (simp add: chunk_end_zero)
      with bad eq have "f tr t cs ov 0 (ch @ [(st, 0, translate_chunk tr (py_slice t st 0))]) = Some y"
        by (simp add: next_start_def)
      from IH [OF this] bad show False by simp
    qed
  qed
  with assms show False by simp
qed

theorem translate_in_chunks_zero_chunk_size:
  "translate_in_chunks echo_translator ''a'' 0 100 = None"
  by (simp add: translate_in_chunks_def chunk_loop_stuck)

subsection \<open>OCR text cleaner\<close>

lemmas ocr_defs = word_rule_def ci_set_def apply_rules_def rx_zero_before_sea_def
  rx_zero_before_vowel_def OCR_CORRECTIONS_def ocr_fixes_def spanish_spell_correct_def
  rx_lone_V_def repl_y_def clean_ocr_text_def

lemma clean_two_V: "clean_ocr_text '' V V '' True = '' y V ''"
  by (simp only: ev_only ocr_defs cong: ev_cong)

lemma clean_one_V: "clean_ocr_text '' y V '' True = '' y y ''"
  by (simp only: ev_only ocr_defs cong: ev_cong)

text \<open>
  Claim C2: cleaning a cleaned text again changes nothing. The substitution of the
  lone V takes the white space on both sides into the match, so of two lone V that
  share a space only the first is rewritten: cleaning the text of a space, V, a
  space, V and a space rewrites one V, and cleaning the result rewrites the other.
\<close>

theorem clean_ocr_text_not_idempotent:
  "clean_ocr_text '' V V '' True = '' y V '' \<and>
   clean_ocr_text (clean_ocr_text '' V V '' True) True = '' y y ''"
  by (simp only: clean_two_V clean_one_V simp_thms)

end
